theory Spec2Isabelle
  imports Main "HOL-Library.Word"
begin

section \<open>Python strings\<close>

text \<open>
  A Python \<open>str\<close> is a sequence of Unicode code points. Isabelle's \<open>char\<close> has
  eight bits, so a string is modelled as the list of its code points; \<open>ascii\<close> writes
  an ASCII literal.
\<close>

type_synonym pystr = "nat list"

definition ascii :: "string \<Rightarrow> pystr" where
  "ascii s = map of_char s"

text \<open>
  The characters \<open>str.split()\<close> and \<open>str.strip()\<close> (without argument) treat as
  whitespace: the code points for which \<open>str.isspace\<close> holds.
\<close>

definition isspace :: "nat \<Rightarrow> bool" where
  "isspace c = ((9 \<le> c \<and> c \<le> 13) \<or> (28 \<le> c \<and> c \<le> 32) \<or> c = 133 \<or> c = 160
     \<or> c = 5760 \<or> (8192 \<le> c \<and> c \<le> 8202) \<or> c = 8232 \<or> c = 8233 \<or> c = 8239
     \<or> c = 8287 \<or> c = 12288)"

text \<open>
  \<open>expr.split()\<close> scans the string once: whitespace ends the current run of other
  characters (an empty run gives no part), any other character extends it. \<open>cur\<close>
  is the run collected so far.
\<close>

fun split_scan :: "pystr \<Rightarrow> pystr \<Rightarrow> pystr list" where
  "split_scan cur [] = (if cur = [] then [] else [cur])"
| "split_scan cur (c # cs) =
     (if isspace c then (if cur = [] then split_scan [] cs else cur # split_scan [] cs)
      else split_scan (cur @ [c]) cs)"

definition split_ws :: "pystr \<Rightarrow> pystr list" where
  "split_ws s = split_scan [] s"

text \<open>\<open>''.join(parts)\<close>\<close>

definition join_empty :: "pystr list \<Rightarrow> pystr" where
  "join_empty parts = concat parts"

text \<open>\<open>s.replace(old, new)\<close> for patterns of one character each.\<close>

definition replace_char :: "nat \<Rightarrow> nat \<Rightarrow> pystr \<Rightarrow> pystr" where
  "replace_char old new s = map (\<lambda>c. if c = old then new else c) s"

text \<open>\<open>s.strip()\<close>\<close>

definition strip :: "pystr \<Rightarrow> pystr" where
  "strip s = rev (dropWhile isspace (rev (dropWhile isspace s)))"

section \<open>SafeEvaluator.sanitize\_input\<close>

text \<open>The full-width parentheses U+FF08 and U+FF09.\<close>

definition fullwidth_lparen :: nat where "fullwidth_lparen = 65288"
definition fullwidth_rparen :: nat where "fullwidth_rparen = 65289"

definition sanitize_input :: "pystr \<Rightarrow> pystr" where
  "sanitize_input expr =
     (let expr1 = join_empty (split_ws expr)
      in replace_char fullwidth_rparen 41 (replace_char fullwidth_lparen 40 expr1))"

section \<open>SafeEvaluator.is\_safe\_expression\<close>

text \<open>
  The pattern is \<open>^[\d+\-*/%().,a-zA-Z!^&=<>|~]+$\<close>, matched with \<open>re.match\<close> on a
  \<open>str\<close>. There \<open>\d\<close> is any Unicode decimal digit (category Nd): ten consecutive
  code points from each of the zero digits below (Unicode 14.0, CPython 3.11).
\<close>

definition decimal_zeros :: "nat list" where
  "decimal_zeros = [
   48, 1632, 1776, 1984, 2406, 2534, 2662, 2790, 2918, 3046, 3174, 3302,
   3430, 3558, 3664, 3792, 3872, 4160, 4240, 6112, 6160, 6470, 6608, 6784,
   6800, 6992, 7088, 7232, 7248, 42528, 43216, 43264, 43472, 43504, 43600, 44016,
   65296, 66720, 68912, 69734, 69872, 69942, 70096, 70384, 70736, 70864, 71248, 71360,
   71472, 71904, 72016, 72784, 73040, 73120, 92768, 92864, 93008, 120782, 120792, 120802,
   120812, 120822, 123200, 123632, 125264, 130032]"

definition re_digit :: "nat \<Rightarrow> bool" where
  "re_digit c = list_ex (\<lambda>z. z \<le> c \<and> c \<le> z + 9) decimal_zeros"

definition ascii_letter :: "nat \<Rightarrow> bool" where
  "ascii_letter c = ((97 \<le> c \<and> c \<le> 122) \<or> (65 \<le> c \<and> c \<le> 90))"

text \<open>The character class of the pattern, item by item.\<close>

definition safe_char :: "nat \<Rightarrow> bool" where
  "safe_char c = (re_digit c \<or> c \<in> set (ascii ''+-*/%().,'') \<or> ascii_letter c
     \<or> c \<in> set (ascii ''!^&=<>|~''))"

text \<open>
  Without \<open>re.MULTILINE\<close>, \<open>$\<close> matches at the end of the string and also just
  before a newline that is the last character.
\<close>

definition dollar_matches :: "pystr \<Rightarrow> bool" where
  "dollar_matches rest = (rest = [] \<or> rest = [10])"

text \<open>
  \<open>[...]+$\<close> from the current position: one character of the class, then either more
  of them (the greedy choice, tried first) or the \<open>$\<close>.
\<close>

fun match_class_plus_dollar :: "pystr \<Rightarrow> bool" where
  "match_class_plus_dollar [] = False"
| "match_class_plus_dollar (c # cs) =
     (safe_char c \<and> (match_class_plus_dollar cs \<or> dollar_matches cs))"

definition is_safe_expression :: "pystr \<Rightarrow> bool" where
  "is_safe_expression expr = match_class_plus_dollar expr"

section \<open>str.isidentifier\<close>

text \<open>
  \<open>str.isidentifier\<close>: the first character is \<open>_\<close> or has the property
  XID\_Start, the others have XID\_Continue. The tables list the code points above
  ASCII as inclusive ranges (Unicode 14.0, CPython 3.11): \<open>xid_start_ranges\<close> those
  with XID\_Start, \<open>xid_continue_only_ranges\<close> those with XID\_Continue and without
  XID\_Start.
\<close>

definition xid_start_ranges :: "(nat \<times> nat) list" where
  "xid_start_ranges = [
   (170, 170), (181, 181), (186, 186), (192, 214), (216, 246), (248, 705),
   (710, 721), (736, 740), (748, 748), (750, 750), (880, 884), (886, 887),
   (891, 893), (895, 895), (902, 902), (904, 906), (908, 908), (910, 929),
   (931, 1013), (1015, 1153), (1162, 1327), (1329, 1366), (1369, 1369), (1376, 1416),
   (1488, 1514), (1519, 1522), (1568, 1610), (1646, 1647), (1649, 1747), (1749, 1749),
   (1765, 1766), (1774, 1775), (1786, 1788), (1791, 1791), (1808, 1808), (1810, 1839),
   (1869, 1957), (1969, 1969), (1994, 2026), (2036, 2037), (2042, 2042), (2048, 2069),
   (2074, 2074), (2084, 2084), (2088, 2088), (2112, 2136), (2144, 2154), (2160, 2183),
   (2185, 2190), (2208, 2249), (2308, 2361), (2365, 2365), (2384, 2384), (2392, 2401),
   (2417, 2432), (2437, 2444), (2447, 2448), (2451, 2472), (2474, 2480), (2482, 2482),
   (2486, 2489), (2493, 2493), (2510, 2510), (2524, 2525), (2527, 2529), (2544, 2545),
   (2556, 2556), (2565, 2570), (2575, 2576), (2579, 2600), (2602, 2608), (2610, 2611),
   (2613, 2614), (2616, 2617), (2649, 2652), (2654, 2654), (2674, 2676), (2693, 2701),
   (2703, 2705), (2707, 2728), (2730, 2736), (2738, 2739), (2741, 2745), (2749, 2749),
   (2768, 2768), (2784, 2785), (2809, 2809), (2821, 2828), (2831, 2832), (2835, 2856),
   (2858, 2864), (2866, 2867), (2869, 2873), (2877, 2877), (2908, 2909), (2911, 2913),
   (2929, 2929), (2947, 2947), (2949, 2954), (2958, 2960), (2962, 2965), (2969, 2970),
   (2972, 2972), (2974, 2975), (2979, 2980), (2984, 2986), (2990, 3001), (3024, 3024),
   (3077, 3084), (3086, 3088), (3090, 3112), (3114, 3129), (3133, 3133), (3160, 3162),
   (3165, 3165), (3168, 3169), (3200, 3200), (3205, 3212), (3214, 3216), (3218, 3240),
   (3242, 3251), (3253, 3257), (3261, 3261), (3293, 3294), (3296, 3297), (3313, 3314),
   (3332, 3340), (3342, 3344), (3346, 3386), (3389, 3389), (3406, 3406), (3412, 3414),
   (3423, 3425), (3450, 3455), (3461, 3478), (3482, 3505), (3507, 3515), (3517, 3517),
   (3520, 3526), (3585, 3632), (3634, 3634), (3648, 3654), (3713, 3714), (3716, 3716),
   (3718, 3722), (3724, 3747), (3749, 3749), (3751, 3760), (3762, 3762), (3773, 3773),
   (3776, 3780), (3782, 3782), (3804, 3807), (3840, 3840), (3904, 3911), (3913, 3948),
   (3976, 3980), (4096, 4138), (4159, 4159), (4176, 4181), (4186, 4189), (4193, 4193),
   (4197, 4198), (4206, 4208), (4213, 4225), (4238, 4238), (4256, 4293), (4295, 4295),
   (4301, 4301), (4304, 4346), (4348, 4680), (4682, 4685), (4688, 4694), (4696, 4696),
   (4698, 4701), (4704, 4744), (4746, 4749), (4752, 4784), (4786, 4789), (4792, 4798),
   (4800, 4800), (4802, 4805), (4808, 4822), (4824, 4880), (4882, 4885), (4888, 4954),
   (4992, 5007), (5024, 5109), (5112, 5117), (5121, 5740), (5743, 5759), (5761, 5786),
   (5792, 5866), (5870, 5880), (5888, 5905), (5919, 5937), (5952, 5969), (5984, 5996),
   (5998, 6000), (6016, 6067), (6103, 6103), (6108, 6108), (6176, 6264), (6272, 6312),
   (6314, 6314), (6320, 6389), (6400, 6430), (6480, 6509), (6512, 6516), (6528, 6571),
   (6576, 6601), (6656, 6678), (6688, 6740), (6823, 6823), (6917, 6963), (6981, 6988),
   (7043, 7072), (7086, 7087), (7098, 7141), (7168, 7203), (7245, 7247), (7258, 7293),
   (7296, 7304), (7312, 7354), (7357, 7359), (7401, 7404), (7406, 7411), (7413, 7414),
   (7418, 7418), (7424, 7615), (7680, 7957), (7960, 7965), (7968, 8005), (8008, 8013),
   (8016, 8023), (8025, 8025), (8027, 8027), (8029, 8029), (8031, 8061), (8064, 8116),
   (8118, 8124), (8126, 8126), (8130, 8132), (8134, 8140), (8144, 8147), (8150, 8155),
   (8160, 8172), (8178, 8180), (8182, 8188), (8305, 8305), (8319, 8319), (8336, 8348),
   (8450, 8450), (8455, 8455), (8458, 8467), (8469, 8469), (8472, 8477), (8484, 8484),
   (8486, 8486), (8488, 8488), (8490, 8505), (8508, 8511), (8517, 8521), (8526, 8526),
   (8544, 8584), (11264, 11492), (11499, 11502), (11506, 11507), (11520, 11557), (11559, 11559),
   (11565, 11565), (11568, 11623), (11631, 11631), (11648, 11670), (11680, 11686), (11688, 11694),
   (11696, 11702), (11704, 11710), (11712, 11718), (11720, 11726), (11728, 11734), (11736, 11742),
   (12293, 12295), (12321, 12329), (12337, 12341), (12344, 12348), (12353, 12438), (12445, 12447),
   (12449, 12538), (12540, 12543), (12549, 12591), (12593, 12686), (12704, 12735), (12784, 12799),
   (13312, 19903), (19968, 42124), (42192, 42237), (42240, 42508), (42512, 42527), (42538, 42539),
   (42560, 42606), (42623, 42653), (42656, 42735), (42775, 42783), (42786, 42888), (42891, 42954),
   (42960, 42961), (42963, 42963), (42965, 42969), (42994, 43009), (43011, 43013), (43015, 43018),
   (43020, 43042), (43072, 43123), (43138, 43187), (43250, 43255), (43259, 43259), (43261, 43262),
   (43274, 43301), (43312, 43334), (43360, 43388), (43396, 43442), (43471, 43471), (43488, 43492),
   (43494, 43503), (43514, 43518), (43520, 43560), (43584, 43586), (43588, 43595), (43616, 43638),
   (43642, 43642), (43646, 43695), (43697, 43697), (43701, 43702), (43705, 43709), (43712, 43712),
   (43714, 43714), (43739, 43741), (43744, 43754), (43762, 43764), (43777, 43782), (43785, 43790),
   (43793, 43798), (43808, 43814), (43816, 43822), (43824, 43866), (43868, 43881), (43888, 44002),
   (44032, 55203), (55216, 55238), (55243, 55291), (63744, 64109), (64112, 64217), (64256, 64262),
   (64275, 64279), (64285, 64285), (64287, 64296), (64298, 64310), (64312, 64316), (64318, 64318),
   (64320, 64321), (64323, 64324), (64326, 64433), (64467, 64605), (64612, 64829), (64848, 64911),
   (64914, 64967), (65008, 65017), (65137, 65137), (65139, 65139), (65143, 65143), (65145, 65145),
   (65147, 65147), (65149, 65149), (65151, 65276), (65313, 65338), (65345, 65370), (65382, 65437),
   (65440, 65470), (65474, 65479), (65482, 65487), (65490, 65495), (65498, 65500), (65536, 65547),
   (65549, 65574), (65576, 65594), (65596, 65597), (65599, 65613), (65616, 65629), (65664, 65786),
   (65856, 65908), (66176, 66204), (66208, 66256), (66304, 66335), (66349, 66378), (66384, 66421),
   (66432, 66461), (66464, 66499), (66504, 66511), (66513, 66517), (66560, 66717), (66736, 66771),
   (66776, 66811), (66816, 66855), (66864, 66915), (66928, 66938), (66940, 66954), (66956, 66962),
   (66964, 66965), (66967, 66977), (66979, 66993), (66995, 67001), (67003, 67004), (67072, 67382),
   (67392, 67413), (67424, 67431), (67456, 67461), (67463, 67504), (67506, 67514), (67584, 67589),
   (67592, 67592), (67594, 67637), (67639, 67640), (67644, 67644), (67647, 67669), (67680, 67702),
   (67712, 67742), (67808, 67826), (67828, 67829), (67840, 67861), (67872, 67897), (67968, 68023),
   (68030, 68031), (68096, 68096), (68112, 68115), (68117, 68119), (68121, 68149), (68192, 68220),
   (68224, 68252), (68288, 68295), (68297, 68324), (68352, 68405), (68416, 68437), (68448, 68466),
   (68480, 68497), (68608, 68680), (68736, 68786), (68800, 68850), (68864, 68899), (69248, 69289),
   (69296, 69297), (69376, 69404), (69415, 69415), (69424, 69445), (69488, 69505), (69552, 69572),
   (69600, 69622), (69635, 69687), (69745, 69746), (69749, 69749), (69763, 69807), (69840, 69864),
   (69891, 69926), (69956, 69956), (69959, 69959), (69968, 70002), (70006, 70006), (70019, 70066),
   (70081, 70084), (70106, 70106), (70108, 70108), (70144, 70161), (70163, 70187), (70272, 70278),
   (70280, 70280), (70282, 70285), (70287, 70301), (70303, 70312), (70320, 70366), (70405, 70412),
   (70415, 70416), (70419, 70440), (70442, 70448), (70450, 70451), (70453, 70457), (70461, 70461),
   (70480, 70480), (70493, 70497), (70656, 70708), (70727, 70730), (70751, 70753), (70784, 70831),
   (70852, 70853), (70855, 70855), (71040, 71086), (71128, 71131), (71168, 71215), (71236, 71236),
   (71296, 71338), (71352, 71352), (71424, 71450), (71488, 71494), (71680, 71723), (71840, 71903),
   (71935, 71942), (71945, 71945), (71948, 71955), (71957, 71958), (71960, 71983), (71999, 71999),
   (72001, 72001), (72096, 72103), (72106, 72144), (72161, 72161), (72163, 72163), (72192, 72192),
   (72203, 72242), (72250, 72250), (72272, 72272), (72284, 72329), (72349, 72349), (72368, 72440),
   (72704, 72712), (72714, 72750), (72768, 72768), (72818, 72847), (72960, 72966), (72968, 72969),
   (72971, 73008), (73030, 73030), (73056, 73061), (73063, 73064), (73066, 73097), (73112, 73112),
   (73440, 73458), (73648, 73648), (73728, 74649), (74752, 74862), (74880, 75075), (77712, 77808),
   (77824, 78894), (82944, 83526), (92160, 92728), (92736, 92766), (92784, 92862), (92880, 92909),
   (92928, 92975), (92992, 92995), (93027, 93047), (93053, 93071), (93760, 93823), (93952, 94026),
   (94032, 94032), (94099, 94111), (94176, 94177), (94179, 94179), (94208, 100343), (100352, 101589),
   (101632, 101640), (110576, 110579), (110581, 110587), (110589, 110590), (110592, 110882), (110928, 110930),
   (110948, 110951), (110960, 111355), (113664, 113770), (113776, 113788), (113792, 113800), (113808, 113817),
   (119808, 119892), (119894, 119964), (119966, 119967), (119970, 119970), (119973, 119974), (119977, 119980),
   (119982, 119993), (119995, 119995), (119997, 120003), (120005, 120069), (120071, 120074), (120077, 120084),
   (120086, 120092), (120094, 120121), (120123, 120126), (120128, 120132), (120134, 120134), (120138, 120144),
   (120146, 120485), (120488, 120512), (120514, 120538), (120540, 120570), (120572, 120596), (120598, 120628),
   (120630, 120654), (120656, 120686), (120688, 120712), (120714, 120744), (120746, 120770), (120772, 120779),
   (122624, 122654), (123136, 123180), (123191, 123197), (123214, 123214), (123536, 123565), (123584, 123627),
   (124896, 124902), (124904, 124907), (124909, 124910), (124912, 124926), (124928, 125124), (125184, 125251),
   (125259, 125259), (126464, 126467), (126469, 126495), (126497, 126498), (126500, 126500), (126503, 126503),
   (126505, 126514), (126516, 126519), (126521, 126521), (126523, 126523), (126530, 126530), (126535, 126535),
   (126537, 126537), (126539, 126539), (126541, 126543), (126545, 126546), (126548, 126548), (126551, 126551),
   (126553, 126553), (126555, 126555), (126557, 126557), (126559, 126559), (126561, 126562), (126564, 126564),
   (126567, 126570), (126572, 126578), (126580, 126583), (126585, 126588), (126590, 126590), (126592, 126601),
   (126603, 126619), (126625, 126627), (126629, 126633), (126635, 126651), (131072, 173791), (173824, 177976),
   (177984, 178205), (178208, 183969), (183984, 191456), (194560, 195101), (196608, 201546)]"

definition xid_continue_only_ranges :: "(nat \<times> nat) list" where
  "xid_continue_only_ranges = [
   (183, 183), (768, 879), (903, 903), (1155, 1159), (1425, 1469), (1471, 1471),
   (1473, 1474), (1476, 1477), (1479, 1479), (1552, 1562), (1611, 1641), (1648, 1648),
   (1750, 1756), (1759, 1764), (1767, 1768), (1770, 1773), (1776, 1785), (1809, 1809),
   (1840, 1866), (1958, 1968), (1984, 1993), (2027, 2035), (2045, 2045), (2070, 2073),
   (2075, 2083), (2085, 2087), (2089, 2093), (2137, 2139), (2200, 2207), (2250, 2273),
   (2275, 2307), (2362, 2364), (2366, 2383), (2385, 2391), (2402, 2403), (2406, 2415),
   (2433, 2435), (2492, 2492), (2494, 2500), (2503, 2504), (2507, 2509), (2519, 2519),
   (2530, 2531), (2534, 2543), (2558, 2558), (2561, 2563), (2620, 2620), (2622, 2626),
   (2631, 2632), (2635, 2637), (2641, 2641), (2662, 2673), (2677, 2677), (2689, 2691),
   (2748, 2748), (2750, 2757), (2759, 2761), (2763, 2765), (2786, 2787), (2790, 2799),
   (2810, 2815), (2817, 2819), (2876, 2876), (2878, 2884), (2887, 2888), (2891, 2893),
   (2901, 2903), (2914, 2915), (2918, 2927), (2946, 2946), (3006, 3010), (3014, 3016),
   (3018, 3021), (3031, 3031), (3046, 3055), (3072, 3076), (3132, 3132), (3134, 3140),
   (3142, 3144), (3146, 3149), (3157, 3158), (3170, 3171), (3174, 3183), (3201, 3203),
   (3260, 3260), (3262, 3268), (3270, 3272), (3274, 3277), (3285, 3286), (3298, 3299),
   (3302, 3311), (3328, 3331), (3387, 3388), (3390, 3396), (3398, 3400), (3402, 3405),
   (3415, 3415), (3426, 3427), (3430, 3439), (3457, 3459), (3530, 3530), (3535, 3540),
   (3542, 3542), (3544, 3551), (3558, 3567), (3570, 3571), (3633, 3633), (3635, 3642),
   (3655, 3662), (3664, 3673), (3761, 3761), (3763, 3772), (3784, 3789), (3792, 3801),
   (3864, 3865), (3872, 3881), (3893, 3893), (3895, 3895), (3897, 3897), (3902, 3903),
   (3953, 3972), (3974, 3975), (3981, 3991), (3993, 4028), (4038, 4038), (4139, 4158),
   (4160, 4169), (4182, 4185), (4190, 4192), (4194, 4196), (4199, 4205), (4209, 4212),
   (4226, 4237), (4239, 4253), (4957, 4959), (4969, 4977), (5906, 5909), (5938, 5940),
   (5970, 5971), (6002, 6003), (6068, 6099), (6109, 6109), (6112, 6121), (6155, 6157),
   (6159, 6169), (6313, 6313), (6432, 6443), (6448, 6459), (6470, 6479), (6608, 6618),
   (6679, 6683), (6741, 6750), (6752, 6780), (6783, 6793), (6800, 6809), (6832, 6845),
   (6847, 6862), (6912, 6916), (6964, 6980), (6992, 7001), (7019, 7027), (7040, 7042),
   (7073, 7085), (7088, 7097), (7142, 7155), (7204, 7223), (7232, 7241), (7248, 7257),
   (7376, 7378), (7380, 7400), (7405, 7405), (7412, 7412), (7415, 7417), (7616, 7679),
   (8255, 8256), (8276, 8276), (8400, 8412), (8417, 8417), (8421, 8432), (11503, 11505),
   (11647, 11647), (11744, 11775), (12330, 12335), (12441, 12442), (42528, 42537), (42607, 42607),
   (42612, 42621), (42654, 42655), (42736, 42737), (43010, 43010), (43014, 43014), (43019, 43019),
   (43043, 43047), (43052, 43052), (43136, 43137), (43188, 43205), (43216, 43225), (43232, 43249),
   (43263, 43273), (43302, 43309), (43335, 43347), (43392, 43395), (43443, 43456), (43472, 43481),
   (43493, 43493), (43504, 43513), (43561, 43574), (43587, 43587), (43596, 43597), (43600, 43609),
   (43643, 43645), (43696, 43696), (43698, 43700), (43703, 43704), (43710, 43711), (43713, 43713),
   (43755, 43759), (43765, 43766), (44003, 44010), (44012, 44013), (44016, 44025), (64286, 64286),
   (65024, 65039), (65056, 65071), (65075, 65076), (65101, 65103), (65296, 65305), (65343, 65343),
   (65438, 65439), (66045, 66045), (66272, 66272), (66422, 66426), (66720, 66729), (68097, 68099),
   (68101, 68102), (68108, 68111), (68152, 68154), (68159, 68159), (68325, 68326), (68900, 68903),
   (68912, 68921), (69291, 69292), (69446, 69456), (69506, 69509), (69632, 69634), (69688, 69702),
   (69734, 69744), (69747, 69748), (69759, 69762), (69808, 69818), (69826, 69826), (69872, 69881),
   (69888, 69890), (69927, 69940), (69942, 69951), (69957, 69958), (70003, 70003), (70016, 70018),
   (70067, 70080), (70089, 70092), (70094, 70105), (70188, 70199), (70206, 70206), (70367, 70378),
   (70384, 70393), (70400, 70403), (70459, 70460), (70462, 70468), (70471, 70472), (70475, 70477),
   (70487, 70487), (70498, 70499), (70502, 70508), (70512, 70516), (70709, 70726), (70736, 70745),
   (70750, 70750), (70832, 70851), (70864, 70873), (71087, 71093), (71096, 71104), (71132, 71133),
   (71216, 71232), (71248, 71257), (71339, 71351), (71360, 71369), (71453, 71467), (71472, 71481),
   (71724, 71738), (71904, 71913), (71984, 71989), (71991, 71992), (71995, 71998), (72000, 72000),
   (72002, 72003), (72016, 72025), (72145, 72151), (72154, 72160), (72164, 72164), (72193, 72202),
   (72243, 72249), (72251, 72254), (72263, 72263), (72273, 72283), (72330, 72345), (72751, 72758),
   (72760, 72767), (72784, 72793), (72850, 72871), (72873, 72886), (73009, 73014), (73018, 73018),
   (73020, 73021), (73023, 73029), (73031, 73031), (73040, 73049), (73098, 73102), (73104, 73105),
   (73107, 73111), (73120, 73129), (73459, 73462), (92768, 92777), (92864, 92873), (92912, 92916),
   (92976, 92982), (93008, 93017), (94031, 94031), (94033, 94087), (94095, 94098), (94180, 94180),
   (94192, 94193), (113821, 113822), (118528, 118573), (118576, 118598), (119141, 119145), (119149, 119154),
   (119163, 119170), (119173, 119179), (119210, 119213), (119362, 119364), (120782, 120831), (121344, 121398),
   (121403, 121452), (121461, 121461), (121476, 121476), (121499, 121503), (121505, 121519), (122880, 122886),
   (122888, 122904), (122907, 122913), (122915, 122916), (122918, 122922), (123184, 123190), (123200, 123209),
   (123566, 123566), (123628, 123641), (125136, 125142), (125252, 125258), (125264, 125273), (130032, 130041),
   (917760, 917999)]"

definition in_ranges :: "(nat \<times> nat) list \<Rightarrow> nat \<Rightarrow> bool" where
  "in_ranges rs c = list_ex (\<lambda>(lo, hi). lo \<le> c \<and> c \<le> hi) rs"

definition xid_start :: "nat \<Rightarrow> bool" where
  "xid_start c = (if c < 128 then ascii_letter c else in_ranges xid_start_ranges c)"

definition xid_continue :: "nat \<Rightarrow> bool" where
  "xid_continue c =
     (if c < 128 then ascii_letter c \<or> (48 \<le> c \<and> c \<le> 57) \<or> c = 95
      else in_ranges xid_start_ranges c \<or> in_ranges xid_continue_only_ranges c)"

definition isidentifier :: "pystr \<Rightarrow> bool" where
  "isidentifier s =
     (case s of [] \<Rightarrow> False
      | c # cs \<Rightarrow> (c = 95 \<or> xid_start c) \<and> list_all xid_continue cs)"

section \<open>Values, exceptions and dictionaries\<close>

text \<open>
  The values an expression of the calculator meets: \<open>int\<close> (unbounded), \<open>bool\<close>,
  \<open>float\<close> and \<open>None\<close>, and the callables of \<open>safe_dict\<close>. A float is its
  IEEE 754 binary64 bit pattern when the model knows it, and \<open>VFloat None\<close> is a float
  whose bits the model does not compute. \<open>VFunc k\<close> is the callable object that
  \<open>safe_dict\<close> binds to the key \<open>k\<close> when it is built.
\<close>

datatype pyval =
    VInt int
  | VBool bool
  | VFloat "64 word option"
  | VNone
  | VFunc pystr

text \<open>
  Exceptions. A \<open>ValueError\<close> of the calculator carries one of its three messages;
  the message built by \<open>f"...: {str(e)}"\<close> in \<open>evaluate\<close> is modelled by the
  exception \<open>e\<close> it prints. \<open>UnboundName\<close> is what the host raises for a name found
  in no mapping when \<open>__builtins__\<close> is \<open>None\<close> (a \<open>TypeError\<close> in CPython 3.11).
  \<open>KeyboardInterrupt\<close> and \<open>SystemExit\<close> are the exceptions that do not derive from
  \<open>Exception\<close>.
\<close>

datatype pyexn =
    ValueError message
  | SyntaxError
  | UnboundName pystr
  | TypeError
  | ZeroDivisionError
  | AttributeError
  | OverflowError
  | RecursionError
  | MemoryError
  | KeyboardInterrupt
  | SystemExit
and message =
    Unsafe_chars
  | Invalid_var_name
  | Calc_error pyexn

fun is_Exception :: "pyexn \<Rightarrow> bool" where
  "is_Exception KeyboardInterrupt = False"
| "is_Exception SystemExit = False"
| "is_Exception _ = True"

text \<open>
  A \<open>dict\<close> keeps its items in insertion order with one item per key. Dictionaries
  are objects: they live in a heap and are passed by address.
\<close>

type_synonym dict = "(pystr \<times> pyval) list"

definition dict_get :: "dict \<Rightarrow> pystr \<Rightarrow> pyval option" where
  "dict_get d k = map_of d k"

fun dict_set :: "dict \<Rightarrow> pystr \<Rightarrow> pyval \<Rightarrow> dict" where
  "dict_set [] k v = [(k, v)]"
| "dict_set ((k', v') # d) k v =
     (if k' = k then (k', v) # d else (k', v') # dict_set d k v)"

definition dict_update :: "dict \<Rightarrow> dict \<Rightarrow> dict" where
  "dict_update d other = fold (\<lambda>(k, v) acc. dict_set acc k v) other d"

definition dict_copy :: "dict \<Rightarrow> dict" where
  "dict_copy d = d"

type_synonym addr = nat
type_synonym heap = "dict list"

definition alloc :: "heap \<Rightarrow> dict \<Rightarrow> addr \<times> heap" where
  "alloc h d = (length h, h @ [d])"

section \<open>SafeEvaluator\<close>

text \<open>\<open>self.safe_dict\<close> as \<open>__init__\<close> builds it.\<close>

definition float_pi :: "64 word" where "float_pi = 0x400921FB54442D18"
definition float_e :: "64 word" where "float_e = 0x4005BF0A8B145769"
definition float_tau :: "64 word" where "float_tau = 0x401921FB54442D18"
definition float_inf :: "64 word" where "float_inf = 0x7FF0000000000000"
definition float_nan :: "64 word" where "float_nan = 0x7FF8000000000000"

definition function_names :: "string list" where
  "function_names =
     [''abs'', ''round'', ''min'', ''max'', ''pow'',
      ''sqrt'', ''exp'', ''log'', ''log10'', ''log2'', ''factorial'',
      ''sin'', ''cos'', ''tan'', ''asin'', ''acos'', ''atan'', ''atan2'',
      ''sinh'', ''cosh'', ''tanh'', ''asinh'', ''acosh'', ''atanh'',
      ''degrees'', ''radians'']"

definition safe_dict_init :: dict where
  "safe_dict_init =
     map (\<lambda>n. (ascii n, VFunc (ascii n))) function_names @
     [(ascii ''pi'', VFloat (Some float_pi)),
      (ascii ''e'', VFloat (Some float_e)),
      (ascii ''tau'', VFloat (Some float_tau)),
      (ascii ''inf'', VFloat (Some float_inf)),
      (ascii ''nan'', VFloat (Some float_nan)),
      (ascii ''ceil'', VFunc (ascii ''ceil'')),
      (ascii ''floor'', VFunc (ascii ''floor'')),
      (ascii ''trunc'', VFunc (ascii ''trunc'')),
      (ascii ''gcd'', VFunc (ascii ''gcd'')),
      (ascii ''lcm'', VFunc (ascii ''lcm'')),
      (ascii ''__builtins__'', VNone)]"

text \<open>
  The host's \<open>eval(source, globals, locals)\<close>: it returns a value or raises, and it
  may rebind names in the two mappings it is given. \<open>None\<close> as outcome stands for an
  input on which the model of the host gives no answer.
\<close>

type_synonym outcome = "(pyexn + pyval) option"
type_synonym host_eval = "pystr \<Rightarrow> dict \<Rightarrow> dict \<Rightarrow> outcome \<times> dict \<times> dict"

text \<open>
  \<open>evaluate(self, expr, variables=None)\<close>. \<open>sd\<close> is the address of
  \<open>self.safe_dict\<close> and \<open>variables\<close> that of the caller's dictionary, if one is
  passed. Everything happens inside \<open>try\<close>: an exception \<open>e\<close> that derives from
  \<open>Exception\<close> leaves as the \<open>ValueError\<close> that prints \<open>e\<close>.
\<close>

definition reraise :: "outcome \<Rightarrow> outcome" where
  "reraise r =
     (case r of
        None \<Rightarrow> None
      | Some (Inr v) \<Rightarrow> Some (Inr v)
      | Some (Inl e) \<Rightarrow>
          if is_Exception e then Some (Inl (ValueError (Calc_error e))) else Some (Inl e))"

definition evaluate ::
  "host_eval \<Rightarrow> heap \<Rightarrow> addr \<Rightarrow> pystr \<Rightarrow> addr option \<Rightarrow> outcome \<times> heap" where
  "evaluate ev h sd expr variables =
     (let expr1 = sanitize_input expr in
      if \<not> is_safe_expression expr1
      then (reraise (Some (Inl (ValueError Unsafe_chars))), h)
      else
        let (eval_dict, h1) = alloc h (dict_copy (h ! sd));
            h2 = (case variables of
                    None \<Rightarrow> h1
                  | Some va \<Rightarrow>
                      if h1 ! va \<noteq> []
                      then h1[eval_dict := dict_update (h1 ! eval_dict) (h1 ! va)]
                      else h1);
            (globals, h3) = alloc h2 [(ascii ''__builtins__'', VNone)];
            (r, globals', locals') = ev expr1 (h3 ! globals) (h3 ! eval_dict)
        in (reraise r, h3[globals := globals', eval_dict := locals']))"

section \<open>The host's eval on calculator expressions\<close>

text \<open>
  \<open>eval\<close> is the host's: the model covers the expressions made of decimal integer
  literals, names, parentheses, unary \<open>+ -\<close>, binary \<open>+ - * / // % **\<close>,
  comparison chains, calls and attribute references. On anything else (float
  literals, keywords, bitwise operators, tuples, keyword arguments, characters
  outside ASCII, ...) the outcome is \<open>None\<close>: the model gives no answer there.
\<close>

definition obind :: "('e + 'a) option \<Rightarrow> ('a \<Rightarrow> ('e + 'b) option) \<Rightarrow> ('e + 'b) option" where
  "obind m f = (case m of None \<Rightarrow> None | Some (Inl e) \<Rightarrow> Some (Inl e) | Some (Inr a) \<Rightarrow> f a)"

subsection \<open>Tokens\<close>

datatype sym =
    LPAR | RPAR | COMMA | DOT
  | PLUS | MINUS | STAR | DSTAR | SLASH | DSLASH | PERCENT
  | ASSIGN | EQ | NE | LT | GT | LE | GE

datatype token = NUM int | NAME pystr | SYM sym

text \<open>
  The keywords, none of which is a name, and \<open>__debug__\<close>, which the compiler
  replaces by a constant.
\<close>

definition py_keywords :: "string list" where
  "py_keywords =
     [''False'', ''None'', ''True'', ''and'', ''as'', ''assert'', ''async'', ''await'',
      ''break'', ''class'', ''continue'', ''def'', ''del'', ''elif'', ''else'', ''except'',
      ''finally'', ''for'', ''from'', ''global'', ''if'', ''import'', ''in'', ''is'',
      ''lambda'', ''nonlocal'', ''not'', ''or'', ''pass'', ''raise'', ''return'', ''try'',
      ''while'', ''with'', ''yield'', ''__debug__'']"

definition is_digit :: "nat \<Rightarrow> bool" where
  "is_digit c = (48 \<le> c \<and> c \<le> 57)"

definition is_name_start :: "nat \<Rightarrow> bool" where
  "is_name_start c = (ascii_letter c \<or> c = 95)"

definition int_of_digits :: "pystr \<Rightarrow> int" where
  "int_of_digits ds = foldl (\<lambda>a d. 10 * a + int (d - 48)) 0 ds"

text \<open>
  The scanner reads one character at a time; \<open>pending\<close> is the token it is in the
  middle of: a number, a name, a dot, an operator character that may start a
  two-character operator, or a complete \<open>**\<close> or \<open>//\<close> that \<open>=\<close> would extend.
\<close>

datatype pending = PNone | PNum pystr | PName pystr | PDot | POp nat | PDStar | PDSlash

text \<open>
  The token a pending item is when the next character does not extend it. A decimal
  literal with a leading zero is accepted only when all its digits are zero.
\<close>

definition single_op :: "nat \<Rightarrow> sym option" where
  "single_op x =
     (if x = 43 then Some PLUS else if x = 45 then Some MINUS
      else if x = 42 then Some STAR else if x = 47 then Some SLASH
      else if x = 37 then Some PERCENT else if x = 61 then Some ASSIGN
      else if x = 60 then Some LT else if x = 62 then Some GT
      else None)"

definition flush :: "pending \<Rightarrow> (pyexn + token list) option" where
  "flush p =
     (case p of
        PNone \<Rightarrow> Some (Inr [])
      | PNum ds \<Rightarrow>
          (case ds of
             [] \<Rightarrow> None
           | d # _ \<Rightarrow>
               if d = 48 \<and> \<not> list_all (\<lambda>x. x = 48) ds then Some (Inl SyntaxError)
               else Some (Inr [NUM (int_of_digits ds)]))
      | PName n \<Rightarrow> if n \<in> set (map ascii py_keywords) then None else Some (Inr [NAME n])
      | PDot \<Rightarrow> Some (Inr [SYM DOT])
      | POp x \<Rightarrow> (case single_op x of None \<Rightarrow> None | Some t \<Rightarrow> Some (Inr [SYM t]))
      | PDStar \<Rightarrow> Some (Inr [SYM DSTAR])
      | PDSlash \<Rightarrow> Some (Inr [SYM DSLASH]))"

text \<open>A character met with nothing pending.\<close>

definition start :: "nat \<Rightarrow> (pyexn + token list \<times> pending) option" where
  "start c =
     (if is_digit c then Some (Inr ([], PNum [c]))
      else if is_name_start c then Some (Inr ([], PName [c]))
      else if c = 46 then Some (Inr ([], PDot))
      else if c = 40 then Some (Inr ([SYM LPAR], PNone))
      else if c = 41 then Some (Inr ([SYM RPAR], PNone))
      else if c = 44 then Some (Inr ([SYM COMMA], PNone))
      else if c \<in> set (ascii ''+-*/%=!<>'') then Some (Inr ([], POp c))
      else None)"

definition flush_then_start :: "pending \<Rightarrow> nat \<Rightarrow> (pyexn + token list \<times> pending) option" where
  "flush_then_start p c =
     obind (flush p) (\<lambda>ts. obind (start c) (\<lambda>(ts', p'). Some (Inr (ts @ ts', p'))))"

text \<open>
  One character. A number followed by a letter or a dot, and a dot followed by a
  digit or a dot, belong to literals outside the model; so do \<open><<\<close>, \<open>>>\<close>,
  \<open><>\<close>, \<open>->\<close>, a \<open>!\<close> without \<open>=\<close> and the augmented assignment operators.
\<close>

definition step :: "pending \<Rightarrow> nat \<Rightarrow> (pyexn + token list \<times> pending) option" where
  "step p c =
     (case p of
        PNone \<Rightarrow> start c
      | PNum ds \<Rightarrow>
          if is_digit c then Some (Inr ([], PNum (ds @ [c])))
          else if is_name_start c \<or> c = 46 then None
          else flush_then_start p c
      | PName n \<Rightarrow>
          if is_digit c \<or> is_name_start c then Some (Inr ([], PName (n @ [c])))
          else flush_then_start p c
      | PDot \<Rightarrow> if is_digit c \<or> c = 46 then None else flush_then_start p c
      | POp x \<Rightarrow>
          if c = 61 then
            (if x = 61 then Some (Inr ([SYM EQ], PNone))
             else if x = 33 then Some (Inr ([SYM NE], PNone))
             else if x = 60 then Some (Inr ([SYM LE], PNone))
             else if x = 62 then Some (Inr ([SYM GE], PNone))
             else None)
          else if x = 42 \<and> c = 42 then Some (Inr ([], PDStar))
          else if x = 47 \<and> c = 47 then Some (Inr ([], PDSlash))
          else if (x = 60 \<or> x = 62) \<and> (c = 60 \<or> c = 62) then None
          else if x = 45 \<and> c = 62 then None
          else flush_then_start p c
      | PDStar \<Rightarrow> if c = 61 then None else flush_then_start p c
      | PDSlash \<Rightarrow> if c = 61 then None else flush_then_start p c)"

fun scan :: "pending \<Rightarrow> pystr \<Rightarrow> (pyexn + token list) option" where
  "scan p [] = flush p"
| "scan p (c # cs) =
     obind (step p c) (\<lambda>(ts, p'). obind (scan p' cs) (\<lambda>ts'. Some (Inr (ts @ ts'))))"

definition tokenize :: "pystr \<Rightarrow> (pyexn + token list) option" where
  "tokenize src = scan PNone src"

text \<open>
  Hosts bound the nesting of parentheses differently (CPython 3.11 refuses the
  200th open one); the model answers up to \<open>paren_limit\<close> only.
\<close>

definition paren_limit :: nat where "paren_limit = 64"

fun nesting_ok :: "nat \<Rightarrow> token list \<Rightarrow> bool" where
  "nesting_ok d [] = True"
| "nesting_ok d (t # ts) =
     (if t = SYM LPAR then d < paren_limit \<and> nesting_ok (d + 1) ts
      else if t = SYM RPAR then nesting_ok (d - 1) ts
      else nesting_ok d ts)"

subsection \<open>Syntax\<close>

datatype unop = UAdd | USub
datatype binop = Add | Sub | Mult | Div | FloorDiv | Mod | Pow
datatype cmpop = Eq | NotEq | Lt | Gt | LtE | GtE

datatype expr =
    Num int
  | Name pystr
  | UnaryOp unop expr
  | BinOp expr binop expr
  | Compare expr "(cmpop \<times> expr) list"
  | Call expr "expr list"
  | Attribute expr pystr

definition cmp_of_token :: "token \<Rightarrow> cmpop option" where
  "cmp_of_token t =
     (if t = SYM EQ then Some Eq else if t = SYM NE then Some NotEq
      else if t = SYM LT then Some Lt else if t = SYM GT then Some Gt
      else if t = SYM LE then Some LtE else if t = SYM GE then Some GtE
      else None)"

definition add_of_token :: "token \<Rightarrow> binop option" where
  "add_of_token t =
     (if t = SYM PLUS then Some Add else if t = SYM MINUS then Some Sub else None)"

definition mul_of_token :: "token \<Rightarrow> binop option" where
  "mul_of_token t =
     (if t = SYM STAR then Some Mult else if t = SYM SLASH then Some Div
      else if t = SYM DSLASH then Some FloorDiv else if t = SYM PERCENT then Some Mod
      else None)"

text \<open>Tokens that can start no expression and no argument.\<close>

definition never_starts :: "token \<Rightarrow> bool" where
  "never_starts t =
     (t \<in> SYM ` {ASSIGN, EQ, NE, LT, GT, LE, GE, SLASH, DSLASH, PERCENT, DOT, COMMA})"

type_synonym 'a presult = "(pyexn + 'a \<times> token list) option"
type_synonym 'a parser = "token list \<Rightarrow> 'a presult"

definition starts_with :: "sym \<Rightarrow> token list \<Rightarrow> bool" where
  "starts_with k ts = (case ts of [] \<Rightarrow> False | t # _ \<Rightarrow> t = SYM k)"

text \<open>
  Recursive descent along the host's grammar: atom, primary (an atom and its
  trailers), power and factor, term, arithmetic expression, comparison. \<open>rec\<close> is
  the parser of a whole expression, for what stands between parentheses; the
  numeric argument of a loop bounds its iterations, and at 0 the model gives no
  answer.
\<close>

text \<open>What may follow a parenthesised expression.\<close>

definition close_paren :: "expr \<Rightarrow> token list \<Rightarrow> expr presult" where
  "close_paren e ts =
     (case ts of
        [] \<Rightarrow> Some (Inl SyntaxError)
      | t # ts' \<Rightarrow> if t = SYM RPAR then Some (Inr (e, ts')) else None)"

definition parse_atom :: "expr parser \<Rightarrow> expr parser" where
  "parse_atom rec ts =
     (case ts of
        [] \<Rightarrow> Some (Inl SyntaxError)
      | NUM i # ts' \<Rightarrow> Some (Inr (Num i, ts'))
      | NAME x # ts' \<Rightarrow> Some (Inr (Name x, ts'))
      | SYM k # ts' \<Rightarrow>
          if k = LPAR
          then (if starts_with RPAR ts' then None
                else obind (rec ts') (\<lambda>(e, ts1). close_paren e ts1))
          else if never_starts (SYM k) then Some (Inl SyntaxError)
          else None)"

text \<open>
  The arguments of a call, after its \<open>(\<close> or after a comma: positional arguments
  only; a comma may end the list.
\<close>

fun parse_args :: "nat \<Rightarrow> expr parser \<Rightarrow> expr list \<Rightarrow> expr list parser" where
  "parse_args 0 rec acc ts = None"
| "parse_args (Suc n) rec acc ts =
     (if starts_with RPAR ts then Some (Inr (acc, tl ts))
      else if starts_with STAR ts \<or> starts_with DSTAR ts then None
      else
        obind (rec ts) (\<lambda>(a, ts1).
          (case ts1 of
             [] \<Rightarrow> Some (Inl SyntaxError)
           | t # ts2 \<Rightarrow>
               if t = SYM COMMA then parse_args n rec (acc @ [a]) ts2
               else if t = SYM RPAR then Some (Inr (acc @ [a], ts2))
               else None)))"

fun parse_trailers :: "nat \<Rightarrow> expr parser \<Rightarrow> expr \<Rightarrow> expr parser" where
  "parse_trailers 0 rec e ts = None"
| "parse_trailers (Suc n) rec e ts =
     (case ts of
        [] \<Rightarrow> Some (Inr (e, ts))
      | t # ts' \<Rightarrow>
          if t = SYM LPAR
          then obind (parse_args (Suc n) rec [] ts')
                 (\<lambda>(args, ts2). parse_trailers n rec (Call e args) ts2)
          else if t = SYM DOT
          then (case ts' of
                  NAME a # ts2 \<Rightarrow> parse_trailers n rec (Attribute e a) ts2
                | _ \<Rightarrow> Some (Inl SyntaxError))
          else Some (Inr (e, ts)))"

definition parse_primary :: "nat \<Rightarrow> expr parser \<Rightarrow> expr parser" where
  "parse_primary n rec ts =
     obind (parse_atom rec ts) (\<lambda>(a, ts1). parse_trailers n rec a ts1)"

text \<open>
  factor: \<open>('+' | '-') factor | power\<close>, and power: \<open>primary ['**' factor]\<close>.
\<close>

fun parse_factor :: "nat \<Rightarrow> expr parser \<Rightarrow> expr parser" where
  "parse_factor 0 prim ts = None"
| "parse_factor (Suc n) prim ts =
     (if starts_with PLUS ts
      then obind (parse_factor n prim (tl ts)) (\<lambda>(e, r). Some (Inr (UnaryOp UAdd e, r)))
      else if starts_with MINUS ts
      then obind (parse_factor n prim (tl ts)) (\<lambda>(e, r). Some (Inr (UnaryOp USub e, r)))
      else
        obind (prim ts) (\<lambda>(p, ts2).
          if starts_with DSTAR ts2
          then obind (parse_factor n prim (tl ts2)) (\<lambda>(e, r). Some (Inr (BinOp p Pow e, r)))
          else Some (Inr (p, ts2))))"

text \<open>A left-associative chain \<open>(op operand)*\<close> after its first operand.\<close>

fun parse_binary_rest ::
  "nat \<Rightarrow> (token \<Rightarrow> binop option) \<Rightarrow> expr parser \<Rightarrow> expr \<Rightarrow> expr parser" where
  "parse_binary_rest 0 ops operand lhs ts = None"
| "parse_binary_rest (Suc n) ops operand lhs ts =
     (case ts of
        [] \<Rightarrow> Some (Inr (lhs, ts))
      | t # ts' \<Rightarrow>
          (case ops t of
             None \<Rightarrow> Some (Inr (lhs, ts))
           | Some b \<Rightarrow>
               obind (operand ts') (\<lambda>(rhs, ts2).
                 parse_binary_rest n ops operand (BinOp lhs b rhs) ts2)))"

definition parse_term :: "nat \<Rightarrow> expr parser \<Rightarrow> expr parser" where
  "parse_term n prim ts =
     obind (parse_factor n prim ts)
       (\<lambda>(lhs, ts1). parse_binary_rest n mul_of_token (parse_factor n prim) lhs ts1)"

definition parse_arith :: "nat \<Rightarrow> expr parser \<Rightarrow> expr parser" where
  "parse_arith n prim ts =
     obind (parse_term n prim ts)
       (\<lambda>(lhs, ts1). parse_binary_rest n add_of_token (parse_term n prim) lhs ts1)"

text \<open>The chain \<open>(comp_op operand)*\<close> of a comparison.\<close>

fun parse_cmp_rest ::
  "nat \<Rightarrow> expr parser \<Rightarrow> (cmpop \<times> expr) list \<Rightarrow> (cmpop \<times> expr) list parser" where
  "parse_cmp_rest 0 operand acc ts = None"
| "parse_cmp_rest (Suc n) operand acc ts =
     (case ts of
        [] \<Rightarrow> Some (Inr (acc, ts))
      | t # ts' \<Rightarrow>
          (case cmp_of_token t of
             None \<Rightarrow> Some (Inr (acc, ts))
           | Some c \<Rightarrow>
               obind (operand ts') (\<lambda>(rhs, ts2).
                 parse_cmp_rest n operand (acc @ [(c, rhs)]) ts2)))"

definition parse_comparison :: "nat \<Rightarrow> expr parser \<Rightarrow> expr parser" where
  "parse_comparison n rec ts =
     obind (parse_arith n (parse_primary n rec) ts) (\<lambda>(lhs, ts1).
     obind (parse_cmp_rest n (parse_arith n (parse_primary n rec)) [] ts1) (\<lambda>(ops, ts2).
       Some (Inr (if ops = [] then lhs else Compare lhs ops, ts2))))"

text \<open>
  An expression, by depth of nesting: \<open>parse_expr d n\<close> parses what nests
  parentheses and calls at most \<open>d\<close> deep.
\<close>

fun parse_expr :: "nat \<Rightarrow> nat \<Rightarrow> expr parser" where
  "parse_expr 0 n ts = None"
| "parse_expr (Suc d) n ts = parse_comparison n (parse_expr d n) ts"

text \<open>One more than the number of tokens: enough for every loop and every nesting.\<close>

fun fuel_for :: "token list \<Rightarrow> nat" where
  "fuel_for [] = Suc 0"
| "fuel_for (t # ts) = Suc (fuel_for ts)"

text \<open>
  The whole input is one expression. What may follow a complete expression and is
  an error for sure is a closing parenthesis or \<open>=\<close>.
\<close>

definition parse_top :: "token list \<Rightarrow> (pyexn + expr) option" where
  "parse_top ts =
     obind (parse_expr (fuel_for ts) (fuel_for ts) ts) (\<lambda>(e, rest).
       (case rest of
          [] \<Rightarrow> Some (Inr e)
        | t # _ \<Rightarrow>
            if t = SYM RPAR \<or> t = SYM ASSIGN then Some (Inl SyntaxError) else None))"

subsection \<open>Evaluation\<close>

text \<open>\<open>bool\<close> is a subclass of \<open>int\<close>: \<open>True\<close> counts as 1 and \<open>False\<close> as 0.\<close>

definition as_int :: "pyval \<Rightarrow> int option" where
  "as_int v =
     (case v of VInt i \<Rightarrow> Some i | VBool b \<Rightarrow> Some (if b then 1 else 0) | _ \<Rightarrow> None)"

definition is_float :: "pyval \<Rightarrow> bool" where
  "is_float v = (case v of VFloat _ \<Rightarrow> True | _ \<Rightarrow> False)"

text \<open>\<open>None\<close> and the callables take part in no arithmetic.\<close>

definition is_number :: "pyval \<Rightarrow> bool" where
  "is_number v = (case v of VNone \<Rightarrow> False | VFunc _ \<Rightarrow> False | _ \<Rightarrow> True)"

text \<open>
  Truth value: zero is false (for a float both zeros, \<open>0.0\<close> and \<open>-0.0\<close>), and
  so is \<open>None\<close>; a callable is true.
\<close>

definition truthy :: "pyval \<Rightarrow> bool option" where
  "truthy v =
     (case v of
        VInt i \<Rightarrow> Some (i \<noteq> 0)
      | VBool b \<Rightarrow> Some b
      | VFloat None \<Rightarrow> None
      | VFloat (Some w) \<Rightarrow> Some (w \<noteq> 0 \<and> w \<noteq> 0x8000000000000000)
      | VNone \<Rightarrow> Some False
      | VFunc _ \<Rightarrow> Some True)"

text \<open>
  An \<open>int\<close> that meets a \<open>float\<close> is converted first, and the conversion raises
  \<open>OverflowError\<close> from \<open>2^1024 - 2^970\<close> on, where rounding leaves the range
  of binary64.
\<close>

definition float_overflows :: "pyval \<Rightarrow> bool" where
  "float_overflows v =
     (case as_int v of None \<Rightarrow> False | Some i \<Rightarrow> 2 ^ 1024 - 2 ^ 970 \<le> \<bar>i\<bar>)"

definition int_op :: "binop \<Rightarrow> int \<Rightarrow> int \<Rightarrow> outcome" where
  "int_op b x y =
     (case b of
        Add \<Rightarrow> Some (Inr (VInt (x + y)))
      | Sub \<Rightarrow> Some (Inr (VInt (x - y)))
      | Mult \<Rightarrow> Some (Inr (VInt (x * y)))
      | Div \<Rightarrow> if y = 0 then Some (Inl ZeroDivisionError) else None
      | FloorDiv \<Rightarrow> if y = 0 then Some (Inl ZeroDivisionError) else Some (Inr (VInt (x div y)))
      | Mod \<Rightarrow> if y = 0 then Some (Inl ZeroDivisionError) else Some (Inr (VInt (x mod y)))
      | Pow \<Rightarrow>
          if 0 \<le> y then Some (Inr (VInt (x ^ nat y)))
          else if x = 0 then Some (Inl ZeroDivisionError)
          else None)"

text \<open>
  With a float operand, \<open>+ - *\<close> give a float (or the conversion of the other
  operand overflows); the other operators on floats are outside the model.
\<close>

definition float_op :: "binop \<Rightarrow> pyval \<Rightarrow> pyval \<Rightarrow> outcome" where
  "float_op b v w =
     (if b = Add \<or> b = Sub \<or> b = Mult
      then (if float_overflows v \<or> float_overflows w then Some (Inl OverflowError)
            else Some (Inr (VFloat None)))
      else None)"

definition binary_op :: "binop \<Rightarrow> pyval \<Rightarrow> pyval \<Rightarrow> outcome" where
  "binary_op b v w =
     (if \<not> is_number v \<or> \<not> is_number w then Some (Inl TypeError)
      else
        (case (as_int v, as_int w) of
           (Some x, Some y) \<Rightarrow> int_op b x y
         | _ \<Rightarrow> float_op b v w))"

definition unary_op :: "unop \<Rightarrow> pyval \<Rightarrow> outcome" where
  "unary_op u v =
     (if \<not> is_number v then Some (Inl TypeError)
      else
        (case as_int v of
           Some x \<Rightarrow> Some (Inr (VInt (if u = USub then - x else x)))
         | None \<Rightarrow> if u = UAdd then Some (Inr v) else Some (Inr (VFloat None))))"

definition int_cmp :: "cmpop \<Rightarrow> int \<Rightarrow> int \<Rightarrow> bool" where
  "int_cmp c x y =
     (case c of Eq \<Rightarrow> x = y | NotEq \<Rightarrow> x \<noteq> y | Lt \<Rightarrow> x < y | Gt \<Rightarrow> x > y
      | LtE \<Rightarrow> x \<le> y | GtE \<Rightarrow> x \<ge> y)"

text \<open>
  \<open>None\<close> and the callables compare by identity and have no order; comparisons of
  a float with a number are outside the model.
\<close>

definition compare_op :: "cmpop \<Rightarrow> pyval \<Rightarrow> pyval \<Rightarrow> outcome" where
  "compare_op c v w =
     (if \<not> is_number v \<or> \<not> is_number w
      then (if c = Eq then Some (Inr (VBool (v = w)))
            else if c = NotEq then Some (Inr (VBool (v \<noteq> w)))
            else Some (Inl TypeError))
      else
        (case (as_int v, as_int w) of
           (Some x, Some y) \<Rightarrow> Some (Inr (VBool (int_cmp c x y)))
         | _ \<Rightarrow> None))"

text \<open>The built-in \<open>abs\<close> and \<open>math.gcd\<close> of two arguments.\<close>

definition py_abs :: "pyval \<Rightarrow> outcome" where
  "py_abs v =
     (if \<not> is_number v then Some (Inl TypeError)
      else (case as_int v of Some x \<Rightarrow> Some (Inr (VInt \<bar>x\<bar>)) | None \<Rightarrow> Some (Inr (VFloat None))))"

definition math_gcd :: "pyval \<Rightarrow> pyval \<Rightarrow> outcome" where
  "math_gcd v w =
     (case (as_int v, as_int w) of
        (Some x, Some y) \<Rightarrow> Some (Inr (VInt (gcd x y)))
      | _ \<Rightarrow> Some (Inl TypeError))"

text \<open>
  The entry \<open>'lcm'\<close> of \<open>safe_dict\<close>:
  \<open>lambda a, b: abs(a*b) // math.gcd(a, b) if a and b else 0\<close>.
  Its \<open>abs\<close> and \<open>math\<close> are those of the module, whatever the variables are.
\<close>

definition lcm_lambda :: "pyval list \<Rightarrow> outcome" where
  "lcm_lambda args =
     (case args of
        [a, b] \<Rightarrow>
          (case truthy a of
             None \<Rightarrow> None
           | Some False \<Rightarrow> Some (Inr (VInt 0))
           | Some True \<Rightarrow>
               (case truthy b of
                  None \<Rightarrow> None
                | Some False \<Rightarrow> Some (Inr (VInt 0))
                | Some True \<Rightarrow>
                    obind (binary_op Mult a b) (\<lambda>p.
                    obind (py_abs p) (\<lambda>n.
                    obind (math_gcd a b) (\<lambda>g.
                      binary_op FloorDiv n g)))))
      | _ \<Rightarrow> Some (Inl TypeError))"

text \<open>
  Calling the callable of a key. The model has \<open>lcm\<close>, \<open>abs\<close> and \<open>gcd\<close> of two
  arguments; the other functions of the host's library are outside it.
\<close>

definition call_function :: "pystr \<Rightarrow> pyval list \<Rightarrow> outcome" where
  "call_function k args =
     (if k = ascii ''lcm'' then lcm_lambda args
      else if k = ascii ''abs'' then
        (case args of [v] \<Rightarrow> py_abs v | _ \<Rightarrow> Some (Inl TypeError))
      else if k = ascii ''gcd'' then
        (case args of [v, w] \<Rightarrow> math_gcd v w | _ \<Rightarrow> None)
      else None)"

definition call_value :: "pyval \<Rightarrow> pyval list \<Rightarrow> outcome" where
  "call_value f args =
     (case f of VFunc k \<Rightarrow> call_function k args | _ \<Rightarrow> Some (Inl TypeError))"

text \<open>
  Attribute reference. An \<open>int\<close> has \<open>real\<close>, \<open>imag\<close>, \<open>numerator\<close>,
  \<open>denominator\<close> and the method \<open>conjugate\<close>; a \<open>float\<close> has \<open>real\<close>, \<open>imag\<close>
  and methods; \<open>None\<close> and the callables have special attributes only, whose names
  all hold an underscore. Methods and special attributes are outside the model.
\<close>

definition get_attr :: "pyval \<Rightarrow> pystr \<Rightarrow> outcome" where
  "get_attr v a =
     (if 95 \<in> set a then None
      else
        (case as_int v of
           Some x \<Rightarrow>
             if a = ascii ''real'' \<or> a = ascii ''numerator'' then Some (Inr (VInt x))
             else if a = ascii ''imag'' then Some (Inr (VInt 0))
             else if a = ascii ''denominator'' then Some (Inr (VInt 1))
             else if a = ascii ''conjugate'' then None
             else Some (Inl AttributeError)
         | None \<Rightarrow>
             if is_float v then
               (if a = ascii ''real'' then Some (Inr v)
                else if a = ascii ''imag'' then Some (Inr (VFloat (Some 0)))
                else if a \<in> set (map ascii [''conjugate'', ''hex'', ''fromhex'']) then None
                else Some (Inl AttributeError))
             else Some (Inl AttributeError)))"

text \<open>
  A name is looked up in the locals, then in the globals, then in the built-ins,
  which \<open>eval\<close> takes from the key \<open>__builtins__\<close> of the globals. The model has
  the case of the calculator, where that is \<open>None\<close> and the lookup fails.
\<close>

definition load_name :: "dict \<Rightarrow> dict \<Rightarrow> pystr \<Rightarrow> outcome" where
  "load_name globals locals n =
     (case dict_get locals n of
        Some v \<Rightarrow> Some (Inr v)
      | None \<Rightarrow>
          (case dict_get globals n of
             Some v \<Rightarrow> Some (Inr v)
           | None \<Rightarrow>
               (case dict_get globals (ascii ''__builtins__'') of
                  Some VNone \<Rightarrow> Some (Inl (UnboundName n))
                | _ \<Rightarrow> None)))"

text \<open>
  Operands and arguments are evaluated from left to right. A comparison chain
  stops at the first comparison that is false.
\<close>

fun eval_expr :: "(pystr \<Rightarrow> outcome) \<Rightarrow> expr \<Rightarrow> outcome"
  and eval_args :: "(pystr \<Rightarrow> outcome) \<Rightarrow> expr list \<Rightarrow> (pyexn + pyval list) option"
  and eval_chain :: "(pystr \<Rightarrow> outcome) \<Rightarrow> pyval \<Rightarrow> (cmpop \<times> expr) list \<Rightarrow> outcome"
where
  "eval_expr look (Num i) = Some (Inr (VInt i))"
| "eval_expr look (Name n) = look n"
| "eval_expr look (UnaryOp u e) = obind (eval_expr look e) (unary_op u)"
| "eval_expr look (BinOp e1 b e2) =
     obind (eval_expr look e1) (\<lambda>v. obind (eval_expr look e2) (\<lambda>w. binary_op b v w))"
| "eval_expr look (Compare e ops) = obind (eval_expr look e) (\<lambda>v. eval_chain look v ops)"
| "eval_expr look (Call f args) =
     obind (eval_expr look f) (\<lambda>fv. obind (eval_args look args) (\<lambda>vs. call_value fv vs))"
| "eval_expr look (Attribute e a) = obind (eval_expr look e) (\<lambda>v. get_attr v a)"
| "eval_args look [] = Some (Inr [])"
| "eval_args look (e # es) =
     obind (eval_expr look e) (\<lambda>v. obind (eval_args look es) (\<lambda>vs. Some (Inr (v # vs))))"
| "eval_chain look v [] = Some (Inr v)"
| "eval_chain look v ((c, e) # rest) =
     obind (eval_expr look e) (\<lambda>w.
     obind (compare_op c v w) (\<lambda>r.
       if rest = [] then Some (Inr r)
       else (case truthy r of
               None \<Rightarrow> None
             | Some False \<Rightarrow> Some (Inr r)
             | Some True \<Rightarrow> eval_chain look w rest)))"

text \<open>
  The source is compiled, which fails with \<open>SyntaxError\<close> before anything is
  evaluated, then evaluated; \<open>look\<close> resolves the names.
\<close>

definition compile :: "pystr \<Rightarrow> (pyexn + expr) option" where
  "compile src =
     obind (tokenize src) (\<lambda>ts. if \<not> nesting_ok 0 ts then None else parse_top ts)"

definition eval_with :: "(pystr \<Rightarrow> outcome) \<Rightarrow> pystr \<Rightarrow> outcome" where
  "eval_with look src = obind (compile src) (eval_expr look)"

text \<open>
  \<open>eval(source, globals, locals)\<close>. An expression of the model binds no name, so
  both mappings are returned as they were.
\<close>

definition eval_source :: "pystr \<Rightarrow> dict \<Rightarrow> dict \<Rightarrow> outcome" where
  "eval_source src globals locals = eval_with (load_name globals locals) src"

definition py_eval :: host_eval where
  "py_eval src globals locals = (eval_source src globals locals, globals, locals)"

text \<open>
  The call \<open>evaluate(expr, variables)\<close> on a heap that holds the evaluator's
  \<open>safe_dict\<close> at address 0 and the caller's dictionary at address 1, and its
  result.
\<close>

definition run_evaluate :: "host_eval \<Rightarrow> pystr \<Rightarrow> dict \<Rightarrow> outcome" where
  "run_evaluate ev expr vars = fst (evaluate ev [safe_dict_init, vars] 0 expr (Some 1))"

text \<open>The globals that \<open>evaluate\<close> hands to \<open>eval\<close>.\<close>

definition eval_globals :: dict where
  "eval_globals = [(ascii ''__builtins__'', VNone)]"

section \<open>FormulaCalculator.calculate\<close>

text \<open>
  The state of the window that \<open>calculate\<close> reads and writes: the heap with the
  evaluator's \<open>safe_dict\<close> and the dictionary \<open>self.variables\<close>, the text of the
  input line, the lines of the result area and of the history, the message of the
  status bar and the warnings shown. A line stands for the text the f-string makes
  of it, a warning for the text of its exception.
\<close>

datatype line = Assign_line pystr pyval | Expr_line pystr pyval

datatype status = Input_empty | Calc_ok | Calc_failed

record window =
  heap :: heap
  safe_dict :: addr
  variables :: addr
  input_area :: pystr
  result_area :: "line list"
  history :: "line list"
  status_bar :: "status list"
  warnings :: "pyexn list"

text \<open>\<open>expr.split('=', 1)\<close> for an \<open>expr\<close> that holds \<open>=\<close>: the two parts.\<close>

definition split_first_eq :: "pystr \<Rightarrow> pystr \<times> pystr" where
  "split_first_eq expr =
     (takeWhile (\<lambda>c. c \<noteq> 61) expr, tl (dropWhile (\<lambda>c. c \<noteq> 61) expr))"

text \<open>
  \<open>except ValueError as e\<close>: the warning and the status message. Any other
  exception leaves \<open>calculate\<close>.
\<close>

definition calc_except :: "window \<Rightarrow> pyexn \<Rightarrow> (pyexn + window) option" where
  "calc_except w e =
     (case e of
        ValueError m \<Rightarrow>
          Some (Inr (w\<lparr>warnings := warnings w @ [e], status_bar := status_bar w @ [Calc_failed]\<rparr>))
      | _ \<Rightarrow> Some (Inl e))"

text \<open>The end of the \<open>try\<close> block after a line was made.\<close>

definition calc_done :: "window \<Rightarrow> line \<Rightarrow> window" where
  "calc_done w ln =
     w\<lparr>result_area := result_area w @ [ln], history := history w @ [ln],
       input_area := [], status_bar := status_bar w @ [Calc_ok]\<rparr>"

text \<open>The branch of an input that holds \<open>=\<close>.\<close>

definition calc_assign :: "host_eval \<Rightarrow> window \<Rightarrow> pystr \<Rightarrow> (pyexn + window) option" where
  "calc_assign ev w expr =
     (let (p0, p1) = split_first_eq expr;
          var_name = strip p0;
          var_expr = strip p1
      in if \<not> isidentifier var_name then calc_except w (ValueError Invalid_var_name)
         else
           (case evaluate ev (heap w) (safe_dict w) var_expr (Some (variables w)) of
              (None, h) \<Rightarrow> None
            | (Some (Inl e), h) \<Rightarrow> calc_except (w\<lparr>heap := h\<rparr>) e
            | (Some (Inr var_value), h) \<Rightarrow>
                Some (Inr (calc_done
                  (w\<lparr>heap := h[variables w := dict_set (h ! variables w) var_name var_value]\<rparr>)
                  (Assign_line var_name var_value)))))"

text \<open>The branch of any other input.\<close>

definition calc_plain :: "host_eval \<Rightarrow> window \<Rightarrow> pystr \<Rightarrow> (pyexn + window) option" where
  "calc_plain ev w expr =
     (case evaluate ev (heap w) (safe_dict w) expr (Some (variables w)) of
        (None, h) \<Rightarrow> None
      | (Some (Inl e), h) \<Rightarrow> calc_except (w\<lparr>heap := h\<rparr>) e
      | (Some (Inr result), h) \<Rightarrow>
          Some (Inr (calc_done (w\<lparr>heap := h\<rparr>) (Expr_line expr result))))"

definition calculate :: "host_eval \<Rightarrow> window \<Rightarrow> (pyexn + window) option" where
  "calculate ev w =
     (let expr = strip (input_area w) in
      if expr = [] then Some (Inr (w\<lparr>status_bar := status_bar w @ [Input_empty]\<rparr>))
      else if 61 \<in> set expr then calc_assign ev w expr
      else calc_plain ev w expr)"

section \<open>Notions for stating the properties\<close>

text \<open>
  The sanitizer of the specification: whitespace removed everywhere, the two
  full-width parentheses replaced, nothing else changed.
\<close>

definition paren_fix :: "nat \<Rightarrow> nat" where
  "paren_fix c = (if c = fullwidth_lparen then 40 else if c = fullwidth_rparen then 41 else c)"

definition spec_sanitize :: "pystr \<Rightarrow> pystr" where
  "spec_sanitize raw = map paren_fix (filter (\<lambda>c. \<not> isspace c) raw)"

text \<open>
  The merged scope of the specification: the function table overridden by the
  variable table.
\<close>

definition merged_scope :: "dict \<Rightarrow> dict \<Rightarrow> dict" where
  "merged_scope sdict vars =
     (if vars \<noteq> [] then dict_update (dict_copy sdict) vars else dict_copy sdict)"


text \<open>
  A window before the first calculation, with the evaluator's dictionary at address
  0 and the given variables at address 1, and what its user sees after
  \<open>calculate\<close> has returned: the result lines, the warnings and the variables.
\<close>

definition window0 :: "dict \<Rightarrow> pystr \<Rightarrow> window" where
  "window0 vars inp =
     \<lparr>heap = [safe_dict_init, vars], safe_dict = 0, variables = 1, input_area = inp,
      result_area = [], history = [], status_bar = [], warnings = []\<rparr>"

definition shown :: "(pyexn + window) option \<Rightarrow> (line list \<times> pyexn list \<times> dict) option" where
  "shown r =
     (case r of
        Some (Inr w) \<Rightarrow> Some (result_area w, warnings w, heap w ! variables w)
      | _ \<Rightarrow> None)"

text \<open>The depth of nesting of an expression.\<close>

fun nesting_depth :: "expr \<Rightarrow> nat" where
  "nesting_depth (Num i) = 1"
| "nesting_depth (Name n) = 1"
| "nesting_depth (UnaryOp u e) = Suc (nesting_depth e)"
| "nesting_depth (BinOp e1 b e2) = Suc (max (nesting_depth e1) (nesting_depth e2))"
| "nesting_depth (Compare e ops) =
     Suc (fold max (map (\<lambda>(c, x). nesting_depth x) ops) (nesting_depth e))"
| "nesting_depth (Call f args) =
     Suc (fold max (map nesting_depth args) (nesting_depth f))"
| "nesting_depth (Attribute e a) = Suc (nesting_depth e)"

text \<open>A host whose \<open>eval\<close> runs out of stack on every input.\<close>

definition exhausted_host :: host_eval where
  "exhausted_host src globals locals = (Some (Inl RecursionError), globals, locals)"


definition token_names :: "token list \<Rightarrow> pystr set" where
  "token_names ts = {n. NAME n \<in> set ts}"



section \<open>Evaluating the model on concrete inputs\<close>

lemmas str_defs = ascii_def isspace_def split_ws_def join_empty_def replace_char_def strip_def
  fullwidth_lparen_def fullwidth_rparen_def sanitize_input_def
lemmas safe_defs = re_digit_def decimal_zeros_def ascii_letter_def safe_char_def
  dollar_matches_def is_safe_expression_def
lemmas tok_defs = tokenize_def step_def start_def flush_def flush_then_start_def single_op_def
  is_digit_def is_name_start_def int_of_digits_def py_keywords_def obind_def paren_limit_def
lemmas parse_defs = compile_def parse_top_def parse_comparison_def parse_arith_def parse_term_def
  parse_primary_def parse_atom_def close_paren_def starts_with_def never_starts_def
  cmp_of_token_def add_of_token_def mul_of_token_def
lemmas eval_defs = eval_with_def eval_source_def py_eval_def load_name_def dict_get_def
  get_attr_def call_value_def call_function_def lcm_lambda_def math_gcd_def py_abs_def
  compare_op_def int_cmp_def unary_op_def binary_op_def float_op_def int_op_def
  float_overflows_def truthy_def is_number_def is_float_def as_int_def
lemmas run_defs = run_evaluate_def evaluate_def reraise_def alloc_def dict_copy_def dict_update_def
  safe_dict_init_def function_names_def Let_def

section \<open>The sanitizer\<close>

lemma concat_split_scan: "concat (split_scan cur s) = cur @ filter (\<lambda>c. \<not> isspace c) s"
  by (induction s arbitrary: cur) auto

lemma sanitize_input_eq: "sanitize_input raw = spec_sanitize raw"
  by (simp add: sanitize_input_def spec_sanitize_def join_empty_def split_ws_def
      concat_split_scan replace_char_def paren_fix_def fullwidth_lparen_def fullwidth_rparen_def)

lemma sanitize_no_space: "c \<in> set (sanitize_input raw) \<Longrightarrow> \<not> isspace c"
  by (auto simp: sanitize_input_eq spec_sanitize_def paren_fix_def isspace_def
      fullwidth_lparen_def fullwidth_rparen_def split: if_splits)

text \<open>
  C8. \<open>sanitize_input\<close> is a total function of its argument alone; its result is the
  input without its whitespace characters, wherever they stand, with the full-width
  parentheses replaced by the ASCII ones and every other character kept as it is, in
  order (so case is preserved); no whitespace is left.
\<close>

theorem sanitize_input_spec:
  "sanitize_input raw = spec_sanitize raw \<and> list_all (\<lambda>c. \<not> isspace c) (sanitize_input raw)"
  using sanitize_no_space [of _ raw] by (simp add: sanitize_input_eq list_all_iff)

section \<open>The validator\<close>

lemma match_iff:
  "match_class_plus_dollar s \<longleftrightarrow>
     (s \<noteq> [] \<and> list_all safe_char s) \<or> (\<exists>p. s = p @ [10] \<and> p \<noteq> [] \<and> list_all safe_char p)"
proof (induction s)
  case Nil
  then show ?case by simp
next
  case (Cons c cs)
  show ?case
  proof (cases "cs = []")
    case True
    then show ?thesis by (auto simp: dollar_matches_def)
  next
    case False
    show ?thesis
      apply (simp add: Cons.IH False dollar_matches_def)
      apply (auto simp: Cons_eq_append_conv)
      done
  qed
qed

text \<open>
  C4. The validator accepts the two-character string of the digit 1 and a newline,
  although the newline is outside the allow-list: \<open>$\<close> matches before a final
  newline.
\<close>

theorem is_safe_expression_trailing_newline:
  "is_safe_expression (ascii ''1'' @ [10]) \<and> \<not> list_all safe_char (ascii ''1'' @ [10])"
  by (simp add: safe_defs ascii_def)

lemma is_safe_sanitized:
  "is_safe_expression (sanitize_input raw) \<longleftrightarrow>
     sanitize_input raw \<noteq> [] \<and> list_all safe_char (sanitize_input raw)"
proof -
  have "10 \<notin> set (sanitize_input raw)"
    using sanitize_no_space [of 10 raw] by (auto simp: isspace_def)
  then have "\<not> (\<exists>p. sanitize_input raw = p @ [10] \<and> p \<noteq> [] \<and> list_all safe_char p)"
    by (metis in_set_conv_decomp)
  then show ?thesis unfolding is_safe_expression_def match_iff by blast
qed

section \<open>evaluate\<close>

lemma evaluate_safe:
  assumes "is_safe_expression (sanitize_input expr)" "sd < length h" "va < length h"
  shows "evaluate ev h sd expr (Some va) =
     (case ev (sanitize_input expr) eval_globals (merged_scope (h ! sd) (h ! va)) of
        (r, g', l') \<Rightarrow> (reraise r, h @ [l', g']))"
  using assms
  by (simp add: evaluate_def alloc_def Let_def merged_scope_def eval_globals_def nth_append
      list_update_append split: prod.splits)

text \<open>
  C2, as the code has it. The check is made on the sanitized input: when that is empty
  or holds a character outside the allow-list, \<open>evaluate\<close> fails with the
  \<open>ValueError\<close> of the unsafe-characters message, whatever the host's \<open>eval\<close>
  would do (it is not called), and the heap is as before.
\<close>

theorem evaluate_rejects_unsafe:
  assumes "sanitize_input raw = [] \<or> \<not> list_all safe_char (sanitize_input raw)"
  shows "evaluate ev h sd raw vars =
           (Some (Inl (ValueError (Calc_error (ValueError Unsafe_chars)))), h)"
proof -
  have "\<not> is_safe_expression (sanitize_input raw)"
    using assms by (auto simp: is_safe_sanitized)
  then show ?thesis by (simp add: evaluate_def reraise_def)
qed

theorem evaluate_rejects_unsafe_witness:
  "\<not> list_all safe_char (sanitize_input (ascii ''2 # 3'')) \<and>
   evaluate py_eval [safe_dict_init, []] 0 (ascii ''2 # 3'') (Some 1) =
     (Some (Inl (ValueError (Calc_error (ValueError Unsafe_chars)))), [safe_dict_init, []])"
proof -
  have h: "\<not> list_all safe_char (sanitize_input (ascii ''2 # 3''))"
    by (simp add: str_defs safe_defs)
  then have "sanitize_input (ascii ''2 # 3'') = [] \<or>
      \<not> list_all safe_char (sanitize_input (ascii ''2 # 3''))" by simp
  from evaluate_rejects_unsafe [OF this] h show ?thesis by simp
qed

text \<open>
  C2, as the claim states it, fails: the input \<open>2 + 3\<close> holds spaces, which are
  outside the allow-list, and \<open>evaluate\<close> returns 5.
\<close>

theorem evaluate_unsafe_char_counterexample:
  "32 \<in> set (ascii ''2 + 3'') \<and> \<not> safe_char 32 \<and>
   run_evaluate py_eval (ascii ''2 + 3'') [] = Some (Inr (VInt 5))"
  by (simp add: str_defs safe_defs tok_defs parse_defs eval_defs run_defs)



section \<open>The merged scope\<close>

lemma dict_get_dict_set:
  "dict_get (dict_set d k v) k' = (if k' = k then Some v else dict_get d k')"
  by (induction d) (auto simp: dict_get_def)

lemma dict_get_fold_set:
  "dict_get (fold (\<lambda>(k, v) acc. dict_set acc k v) other d) k =
     (case map_of (rev other) k of Some v \<Rightarrow> Some v | None \<Rightarrow> dict_get d k)"
proof (induction other arbitrary: d)
  case Nil
  then show ?case by simp
next
  case (Cons x xs)
  obtain k0 v0 where x: "x = (k0, v0)" by (cases x)
  show ?case
    by (simp add: Cons.IH x dict_get_dict_set map_add_def split: option.splits)
qed

lemma map_of_rev_distinct: "distinct (map fst xs) \<Longrightarrow> map_of (rev xs) = map_of xs"
  by (rule map_of_inject_set [THEN iffD2]) (simp_all add: rev_map [symmetric] del: rev_map)

lemma dict_get_merged:
  assumes "distinct (map fst vars)"
  shows "dict_get (merged_scope sdict vars) k =
           (case dict_get vars k of Some v \<Rightarrow> Some v | None \<Rightarrow> dict_get sdict k)"
  using assms
  by (cases "vars = []")
     (simp_all add: merged_scope_def dict_update_def dict_copy_def dict_get_fold_set
        map_of_rev_distinct, simp_all add: dict_get_def)

lemma gcd_4_6: "gcd (4::int) 6 = 2" by code_simp

text \<open>
  C5. A name bound in the caller's variables has the variable's value in the scope
  that \<open>evaluate\<close> builds and hands to \<open>eval\<close> as locals, whatever \<open>safe_dict\<close>
  binds it to, and name resolution finds that value; \<open>evaluate("e", {e: 10})\<close> is
  10, and without the variable it is the constant \<open>math.e\<close>.
\<close>

theorem variables_shadow_builtins:
  assumes "distinct (map fst vars)" "dict_get vars k = Some v"
  shows "dict_get (merged_scope sdict vars) k = Some v \<and>
         load_name eval_globals (merged_scope sdict vars) k = Some (Inr v) \<and>
         (is_safe_expression (sanitize_input expr) \<longrightarrow>
            evaluate ev [sdict, vars] 0 expr (Some 1) =
              (case ev (sanitize_input expr) eval_globals (merged_scope sdict vars) of
                 (r, g', l') \<Rightarrow> (reraise r, [sdict, vars, l', g']))) \<and>
         run_evaluate py_eval (ascii ''e'') [(ascii ''e'', VInt 10)] = Some (Inr (VInt 10)) \<and>
         run_evaluate py_eval (ascii ''e'') [] = Some (Inr (VFloat (Some float_e)))"
proof -
  have 1: "dict_get (merged_scope sdict vars) k = Some v"
    using assms by (simp add: dict_get_merged)
  have 2: "load_name eval_globals (merged_scope sdict vars) k = Some (Inr v)"
    by (simp add: load_name_def 1)
  have 3: "is_safe_expression (sanitize_input expr) \<longrightarrow>
            evaluate ev [sdict, vars] 0 expr (Some 1) =
              (case ev (sanitize_input expr) eval_globals (merged_scope sdict vars) of
                 (r, g', l') \<Rightarrow> (reraise r, [sdict, vars, l', g']))"
    using evaluate_safe [of expr 0 "[sdict, vars]" 1 ev] by simp
  have 4: "run_evaluate py_eval (ascii ''e'') [(ascii ''e'', VInt 10)] = Some (Inr (VInt 10))"
    by (simp add: str_defs safe_defs tok_defs parse_defs eval_defs run_defs)
  have 5: "run_evaluate py_eval (ascii ''e'') [] = Some (Inr (VFloat (Some float_e)))"
    by (simp add: str_defs safe_defs tok_defs parse_defs eval_defs run_defs)
  from 1 2 3 4 5 show ?thesis by blast
qed

theorem variables_shadow_builtins_witness:
  "dict_get safe_dict_init (ascii ''e'') = Some (VFloat (Some float_e)) \<and>
   dict_get (merged_scope safe_dict_init [(ascii ''e'', VInt 10)]) (ascii ''e'') = Some (VInt 10)"
proof -
  have a: "distinct (map fst [(ascii ''e'', VInt 10)])" by simp
  have b: "dict_get [(ascii ''e'', VInt 10)] (ascii ''e'') = Some (VInt 10)"
    by (simp add: dict_get_def)
  have c: "dict_get safe_dict_init (ascii ''e'') = Some (VFloat (Some float_e))"
    by (simp add: dict_get_def safe_dict_init_def function_names_def ascii_def)
  from variables_shadow_builtins [OF a b, of safe_dict_init] c show ?thesis by blast
qed

section \<open>lcm\<close>

text \<open>
  C7, as the claim states it, fails for numeric arguments that are not integers:
  \<open>e\<close> and \<open>pi\<close> are both nonzero, and \<open>lcm(e, pi)\<close> raises \<open>TypeError\<close>
  (from \<open>math.gcd\<close>), which \<open>evaluate\<close> reports.
\<close>

theorem lcm_float_counterexample:
  "truthy (VFloat (Some float_e)) = Some True \<and> truthy (VFloat (Some float_pi)) = Some True \<and>
   run_evaluate py_eval (ascii ''lcm(e,pi)'') [] = Some (Inl (ValueError (Calc_error TypeError)))"
  by (simp add: str_defs safe_defs tok_defs parse_defs eval_defs run_defs float_e_def float_pi_def)

lemma lcm_lambda_int:
  "lcm_lambda [VInt a, VInt b] =
     Some (Inr (VInt (if a \<noteq> 0 \<and> b \<noteq> 0 then \<bar>a * b\<bar> div gcd a b else 0)))"
  by (cases "a = 0"; cases "b = 0")
     (simp_all add: lcm_lambda_def truthy_def binary_op_def is_number_def as_int_def
        int_op_def py_abs_def math_gcd_def obind_def)

lemma lcm_lambda_floats:
  assumes "truthy (VFloat x) = Some True" "truthy (VFloat y) = Some True"
  shows "lcm_lambda [VFloat x, VFloat y] = Some (Inl TypeError)"
  using assms
  by (simp add: lcm_lambda_def binary_op_def is_number_def as_int_def float_op_def
      float_overflows_def py_abs_def math_gcd_def obind_def)

text \<open>
  C7, as the code has it. For integers \<open>lcm(a, b)\<close> is \<open>abs(a*b) // gcd(a, b)\<close>
  when both are nonzero, a division that leaves no remainder, and 0 when one of them
  is 0, without any exception; \<open>lcm(0,5)\<close> is 0 and \<open>lcm(4,6)\<close> is 12. For two
  floats that are not zero it raises \<open>TypeError\<close>.
\<close>

theorem lcm_lambda_integers:
  "lcm_lambda [VInt a, VInt b] =
     Some (Inr (VInt (if a \<noteq> 0 \<and> b \<noteq> 0 then \<bar>a * b\<bar> div gcd a b else 0))) \<and>
   gcd a b * (\<bar>a * b\<bar> div gcd a b) = \<bar>a * b\<bar> \<and>
   run_evaluate py_eval (ascii ''lcm(0,5)'') [] = Some (Inr (VInt 0)) \<and>
   run_evaluate py_eval (ascii ''lcm(4,6)'') [] = Some (Inr (VInt 12)) \<and>
   (truthy (VFloat x) = Some True \<and> truthy (VFloat y) = Some True \<longrightarrow>
      lcm_lambda [VFloat x, VFloat y] = Some (Inl TypeError))"
proof -
  have "gcd a b dvd \<bar>a * b\<bar>" by simp
  then have 2: "gcd a b * (\<bar>a * b\<bar> div gcd a b) = \<bar>a * b\<bar>" by (rule dvd_mult_div_cancel)
  have 3: "run_evaluate py_eval (ascii ''lcm(0,5)'') [] = Some (Inr (VInt 0))"
    by (simp add: str_defs safe_defs tok_defs parse_defs eval_defs run_defs)
  have 4: "run_evaluate py_eval (ascii ''lcm(4,6)'') [] = Some (Inr (VInt 12))"
    by (simp add: str_defs safe_defs tok_defs parse_defs eval_defs run_defs gcd_4_6)
  from lcm_lambda_int 2 3 4 lcm_lambda_floats show ?thesis by blast
qed

theorem lcm_lambda_integers_witness:
  "lcm_lambda [VInt (- 4), VInt 6] = Some (Inr (VInt 12)) \<and>
   lcm_lambda [VInt 0, VInt 5] = Some (Inr (VInt 0)) \<and>
   lcm_lambda [VFloat (Some float_e), VFloat (Some float_pi)] = Some (Inl TypeError)"
proof -
  have t: "truthy (VFloat (Some float_e)) = Some True \<and> truthy (VFloat (Some float_pi)) = Some True"
    by (simp add: truthy_def float_e_def float_pi_def)
  from lcm_lambda_integers [of "- 4" 6 "Some float_e" "Some float_pi"]
    lcm_lambda_integers [of 0 5 "Some float_e" "Some float_pi"] t
  show ?thesis by (simp add: gcd_4_6)
qed

section \<open>calculate\<close>

lemma in_set_dropWhile: "c \<in> set s \<Longrightarrow> \<not> P c \<Longrightarrow> c \<in> set (dropWhile P s)"
  by (induction s) auto

lemma in_set_strip: "c \<in> set s \<Longrightarrow> \<not> isspace c \<Longrightarrow> c \<in> set (strip s)"
  by (simp add: strip_def in_set_dropWhile)

lemma not_xid: "c = 60 \<or> c = 62 \<or> c = 33 \<Longrightarrow> \<not> xid_continue c \<and> \<not> xid_start c \<and> c \<noteq> 95 \<and> \<not> isspace c"
  by (auto simp: xid_continue_def xid_start_def ascii_letter_def isspace_def)

lemma comparison_char_no_identifier:
  assumes "c \<in> set s" "c = 60 \<or> c = 62 \<or> c = 33"
  shows "\<not> isidentifier s"
proof (cases s)
  case Nil
  then show ?thesis by (simp add: isidentifier_def)
next
  case (Cons x xs)
  with assms(1) have "c = x \<or> c \<in> set xs" by auto
  then show ?thesis
    using not_xid [OF assms(2)] by (auto simp: isidentifier_def Cons list_all_iff)
qed

lemma takeWhile_first_eq:
  "61 \<notin> set pre \<Longrightarrow> c \<noteq> 61 \<Longrightarrow>
   takeWhile (\<lambda>x. x \<noteq> 61) (pre @ c # 61 # post) = pre @ [c]"
  by (induction pre) auto

lemma calc_assign_invalid:
  assumes "\<not> isidentifier (strip (fst (split_first_eq expr)))"
  shows "calc_assign ev w expr =
     Some (Inr (w\<lparr>warnings := warnings w @ [ValueError Invalid_var_name],
                 status_bar := status_bar w @ [Calc_failed]\<rparr>))"
  using assms by (simp add: calc_assign_def calc_except_def case_prod_beta Let_def)

text \<open>
  C10. An input that holds \<open>=\<close> anywhere takes the assignment branch, split at its
  first \<open>=\<close>. When the text before that \<open>=\<close> is not an identifier, the call
  ends with the warning of the invalid variable name and nothing else changes; that
  is the case of every input whose first \<open>=\<close> follows \<open><\<close>, \<open>>\<close> or
  \<open>!\<close>, so \<open><=\<close>, \<open>>=\<close> and \<open>!=\<close> there are never evaluated as
  comparisons.
\<close>

theorem calculate_splits_at_first_eq:
  assumes "61 \<in> set (strip (input_area w))"
  shows "calculate ev w = calc_assign ev w (strip (input_area w)) \<and>
         (\<not> isidentifier (strip (fst (split_first_eq (strip (input_area w))))) \<longrightarrow>
            calculate ev w =
              Some (Inr (w\<lparr>warnings := warnings w @ [ValueError Invalid_var_name],
                          status_bar := status_bar w @ [Calc_failed]\<rparr>))) \<and>
         (\<forall>pre c post.
            strip (input_area w) = pre @ c # 61 # post \<and> 61 \<notin> set pre \<and>
            (c = 60 \<or> c = 62 \<or> c = 33) \<longrightarrow>
            calculate ev w =
              Some (Inr (w\<lparr>warnings := warnings w @ [ValueError Invalid_var_name],
                          status_bar := status_bar w @ [Calc_failed]\<rparr>)))"
proof -
  have ne: "strip (input_area w) \<noteq> []" using assms by auto
  have 1: "calculate ev w = calc_assign ev w (strip (input_area w))"
    using assms ne by (simp add: calculate_def Let_def)
  have 2: "calculate ev w =
              Some (Inr (w\<lparr>warnings := warnings w @ [ValueError Invalid_var_name],
                          status_bar := status_bar w @ [Calc_failed]\<rparr>))"
    if "\<not> isidentifier (strip (fst (split_first_eq (strip (input_area w)))))"
    using that by (simp add: 1 calc_assign_invalid)
  have 3: "\<not> isidentifier (strip (fst (split_first_eq (strip (input_area w)))))"
    if a: "strip (input_area w) = pre @ c # 61 # post" "61 \<notin> set pre"
      "c = 60 \<or> c = 62 \<or> c = 33" for pre c post
  proof -
    have "c \<noteq> 61" using a(3) by auto
    then have "takeWhile (\<lambda>x. x \<noteq> 61) (pre @ c # 61 # post) = pre @ [c]"
      using a(2) by (simp add: takeWhile_first_eq)
    then have "fst (split_first_eq (strip (input_area w))) = pre @ [c]"
      by (simp add: split_first_eq_def a(1))
    moreover have "c \<in> set (strip (pre @ [c]))"
      using not_xid [OF a(3)] by (intro in_set_strip) auto
    ultimately show ?thesis
      using comparison_char_no_identifier [OF _ a(3)] by simp
  qed
  from 1 2 3 show ?thesis by blast
qed

lemmas calc_defs = calculate_def calc_assign_def calc_plain_def calc_except_def calc_done_def
  split_first_eq_def window0_def shown_def isidentifier_def xid_start_def xid_continue_def

theorem calculate_splits_at_first_eq_witness:
  "calculate py_eval (window0 [(ascii ''x'', VInt 5)] (ascii ''x<=5'')) =
     Some (Inr ((window0 [(ascii ''x'', VInt 5)] (ascii ''x<=5''))
       \<lparr>warnings := [ValueError Invalid_var_name], status_bar := [Calc_failed]\<rparr>)) \<and>
   run_evaluate py_eval (ascii ''x<=5'') [(ascii ''x'', VInt 5)] = Some (Inr (VBool True))"
proof -
  have s: "strip (input_area (window0 [(ascii ''x'', VInt 5)] (ascii ''x<=5''))) = ascii ''x'' @ 60 # 61 # ascii ''5''"
    by (simp add: window0_def str_defs)
  then have a: "61 \<in> set (strip (input_area (window0 [(ascii ''x'', VInt 5)] (ascii ''x<=5''))))"
    by simp
  have b: "61 \<notin> set (ascii ''x'')" by (simp add: ascii_def)
  have c: "run_evaluate py_eval (ascii ''x<=5'') [(ascii ''x'', VInt 5)] = Some (Inr (VBool True))"
    by (simp add: str_defs safe_defs tok_defs parse_defs eval_defs run_defs)
  from calculate_splits_at_first_eq [OF a, of py_eval] s b
  have "calculate py_eval (window0 [(ascii ''x'', VInt 5)] (ascii ''x<=5'')) =
     Some (Inr ((window0 [(ascii ''x'', VInt 5)] (ascii ''x<=5''))
       \<lparr>warnings := warnings (window0 [(ascii ''x'', VInt 5)] (ascii ''x<=5'')) @ [ValueError Invalid_var_name],
         status_bar := status_bar (window0 [(ascii ''x'', VInt 5)] (ascii ''x<=5'')) @ [Calc_failed]\<rparr>))"
    by blast
  then show ?thesis using c by (simp add: window0_def)
qed

text \<open>
  C3. On the input \<open>x==5\<close> with \<open>x\<close> bound to 5, \<open>calculate\<close> takes the
  assignment branch: it evaluates \<open>=5\<close> for the name \<open>x\<close>, which is a syntax
  error, and shows that as a warning; no result line is written and \<open>x\<close> stays 5.
  The evaluator itself, given \<open>x==5\<close>, returns \<open>True\<close>.
\<close>

theorem calculate_double_eq_is_assignment:
  "shown (calculate py_eval (window0 [(ascii ''x'', VInt 5)] (ascii ''x==5''))) =
     Some ([], [ValueError (Calc_error SyntaxError)], [(ascii ''x'', VInt 5)]) \<and>
   run_evaluate py_eval (ascii ''x==5'') [(ascii ''x'', VInt 5)] = Some (Inr (VBool True))"
  by (simp add: calc_defs str_defs safe_defs tok_defs parse_defs eval_defs run_defs)


section \<open>Deeply nested input\<close>

lemma scan_minus_pending:
  "scan (POp 45) (replicate n 45 @ [49]) =
     Some (Inr (SYM MINUS # replicate n (SYM MINUS) @ [NUM 1]))"
  by (induction n) (simp_all add: tok_defs safe_defs ascii_def)

lemma tokenize_minus_chain:
  "tokenize (replicate n 45 @ [49]) = Some (Inr (replicate n (SYM MINUS) @ [NUM 1]))"
proof (cases n)
  case 0
  then show ?thesis by (simp add: tok_defs safe_defs ascii_def)
next
  case (Suc m)
  have "step PNone 45 = Some (Inr ([], POp 45))"
    by (simp add: tok_defs safe_defs ascii_def)
  then show ?thesis
    by (simp add: Suc tokenize_def scan_minus_pending obind_def)
qed

lemma nesting_ok_minus_chain: "nesting_ok d (replicate n (SYM MINUS) @ [NUM 1])"
  by (induction n) simp_all

lemma parse_factor_minus_chain:
  assumes "prim [NUM 1] = Some (Inr (Num 1, []))"
  shows "n < k \<Longrightarrow>
     parse_factor k prim (replicate n (SYM MINUS) @ [NUM 1]) =
       Some (Inr ((UnaryOp USub ^^ n) (Num 1), []))"
proof (induction n arbitrary: k)
  case 0
  then obtain k' where "k = Suc k'" by (cases k) auto
  then show ?case by (simp add: starts_with_def assms obind_def)
next
  case (Suc n)
  then obtain k' where k: "k = Suc k'" "n < k'" by (cases k) auto
  show ?case
    by (simp add: k(1) starts_with_def Suc.IH [OF k(2)] obind_def)
qed

lemma fuel_for_length: "fuel_for ts = Suc (length ts)"
  by (induction ts) simp_all

lemma parse_top_minus_chain:
  "parse_top (replicate n (SYM MINUS) @ [NUM 1]) = Some (Inr ((UnaryOp USub ^^ n) (Num 1)))"
proof -
  let ?ts = "replicate n (SYM MINUS) @ [NUM 1]"
  let ?F = "Suc (Suc n)"
  let ?prim = "parse_primary ?F (parse_expr (Suc n) ?F)"
  have p: "?prim [NUM 1] = Some (Inr (Num 1, []))"
    by (simp add: parse_primary_def parse_atom_def obind_def)
  have f: "parse_factor ?F ?prim ?ts = Some (Inr ((UnaryOp USub ^^ n) (Num 1), []))"
    using parse_factor_minus_chain [where prim = "?prim" and n = n and k = "?F", OF p] by simp
  have "parse_comparison ?F (parse_expr (Suc n) ?F) ?ts =
          Some (Inr ((UnaryOp USub ^^ n) (Num 1), []))"
    unfolding parse_comparison_def parse_arith_def parse_term_def f
    by (simp add: obind_def del: parse_factor.simps)
  then have "parse_expr ?F ?F ?ts = Some (Inr ((UnaryOp USub ^^ n) (Num 1), []))"
    by simp
  then show ?thesis by (simp add: parse_top_def fuel_for_length obind_def)
qed

lemma compile_minus_chain:
  "compile (replicate n 45 @ [49]) = Some (Inr ((UnaryOp USub ^^ n) (Num 1)))"
  by (simp add: compile_def tokenize_minus_chain nesting_ok_minus_chain parse_top_minus_chain
      obind_def)

lemma eval_minus_chain:
  "eval_expr look ((UnaryOp USub ^^ n) (Num 1)) = Some (Inr (VInt ((- 1) ^ n)))"
  by (induction n) (simp_all add: obind_def unary_op_def is_number_def as_int_def)

lemma depth_minus_chain: "nesting_depth ((UnaryOp USub ^^ n) (Num 1)) = Suc n"
  by (induction n) simp_all

lemma safe_minus_chain: "is_safe_expression (sanitize_input (replicate n 45 @ [49]))"
proof -
  have "sanitize_input (replicate n 45 @ [49]) = replicate n 45 @ [49]"
    by (simp add: sanitize_input_eq spec_sanitize_def isspace_def paren_fix_def
        fullwidth_lparen_def fullwidth_rparen_def)
  moreover have "safe_char 45" "safe_char 49"
    by (simp_all add: safe_defs ascii_def)
  ultimately show ?thesis
    using is_safe_sanitized [of "replicate n 45 @ [49]"] by (simp add: list_all_iff)
qed

lemma run_evaluate_py_eval:
  assumes "is_safe_expression (sanitize_input expr)"
  shows "run_evaluate py_eval expr vars =
           reraise (eval_source (sanitize_input expr) eval_globals (merged_scope safe_dict_init vars))"
  using evaluate_safe [OF assms, of 0 "[safe_dict_init, vars]" 1 py_eval]
  by (simp add: run_evaluate_def py_eval_def)

text \<open>
  C9, as the claim states it, fails: the input of 257 minus signs before the digit 1
  is an expression nested 258 deep, and \<open>evaluate\<close> returns its value, -1; no
  bound on the depth is checked.
\<close>

theorem deep_nesting_counterexample:
  "compile (replicate 257 45 @ [49]) = Some (Inr ((UnaryOp USub ^^ 257) (Num 1))) \<and>
   nesting_depth ((UnaryOp USub ^^ 257) (Num 1)) = 258 \<and>
   run_evaluate py_eval (replicate 257 45 @ [49]) [] = Some (Inr (VInt (- 1)))"
proof -
  have "sanitize_input (replicate 257 45 @ [49]) = replicate 257 45 @ [49]"
    by (simp add: sanitize_input_eq spec_sanitize_def isspace_def paren_fix_def
        fullwidth_lparen_def fullwidth_rparen_def)
  then have "run_evaluate py_eval (replicate 257 45 @ [49]) [] = Some (Inr (VInt ((- 1) ^ 257)))"
    by (simp add: run_evaluate_py_eval [OF safe_minus_chain] eval_source_def eval_with_def
        compile_minus_chain eval_minus_chain obind_def reraise_def)
  then show ?thesis
    by (simp add: compile_minus_chain depth_minus_chain)
qed

text \<open>
  C9, as the code has it. \<open>evaluate\<close> has no bound on the nesting depth and no
  error of its own for it: on an accepted input its outcome is the host's. A value
  is returned as it is, and whatever exception \<open>e\<close> the host raises, a
  \<open>RecursionError\<close> or \<open>MemoryError\<close> on too deep a nesting included, leaves as the
  \<open>ValueError\<close> that prints \<open>e\<close> when \<open>e\<close> derives from \<open>Exception\<close>.
\<close>

theorem evaluate_reports_host_outcome:
  assumes "is_safe_expression (sanitize_input expr)" "sd < length h" "va < length h"
    and "fst (ev (sanitize_input expr) eval_globals (merged_scope (h ! sd) (h ! va))) = Some r"
  shows "fst (evaluate ev h sd expr (Some va)) =
           (case r of
              Inr v \<Rightarrow> Some (Inr v)
            | Inl e \<Rightarrow> if is_Exception e then Some (Inl (ValueError (Calc_error e)))
                       else Some (Inl e))"
  using assms(4)
  by (auto simp: evaluate_safe [OF assms(1-3)] reraise_def split: prod.splits sum.splits)

theorem evaluate_reports_host_outcome_witness:
  "fst (evaluate exhausted_host [safe_dict_init, []] 0 (ascii ''((1))'') (Some 1)) =
     Some (Inl (ValueError (Calc_error RecursionError)))"
proof -
  have a: "is_safe_expression (sanitize_input (ascii ''((1))''))"
    by (simp add: str_defs safe_defs)
  have b: "fst (exhausted_host (sanitize_input (ascii ''((1))'')) eval_globals
      (merged_scope ([safe_dict_init, []] ! 0) ([safe_dict_init, []] ! 1))) = Some (Inl RecursionError)"
    by (simp add: exhausted_host_def)
  from evaluate_reports_host_outcome [where ev = exhausted_host and h = "[safe_dict_init, []]"
      and sd = 0 and va = 1 and expr = "ascii ''((1))''" and r = "Inl RecursionError", OF a _ _ b]
  show ?thesis by simp
qed


section \<open>Name resolution\<close>



lemma token_names_Cons [simp]:
  "token_names (NAME n # ts) = insert n (token_names ts)"
  "token_names (NUM i # ts) = token_names ts"
  "token_names (SYM k # ts) = token_names ts"
  "token_names [] = {}"
  by (auto simp: token_names_def)


lemma token_names_Cons_sub: "token_names (t # ts) \<subseteq> N \<Longrightarrow> token_names ts \<subseteq> N"
  by (auto simp: token_names_def)
































end
